theory Spec2Isabelle
  imports Complex_Main "HOL-Library.Char_ord" "HOL-Library.List_Lexorder" "HOL-Library.Multiset"
begin

section \<open>Data model\<close>

text \<open>
  Both tools instantiate the library's templates with an unsigned vertex type and a
  floating-point data type. Vertices are modelled as natural numbers. Weights are modelled
  as exact rationals: rounding, overflow, infinities and NaN of \<^verbatim>\<open>float\<close> and
  \<^verbatim>\<open>double\<close> are outside this model.
\<close>

type_synonym VertexType = nat
type_synonym DataType = rat

text \<open>
  How a computation ends when it does not return: with a C++ exception that leaves the
  function (a \<^verbatim>\<open>std::runtime_error\<close> with its message, or the complex's
  \<^verbatim>\<open>DuplicateSimplexError\<close>), with a division by zero, or in undefined behaviour.
\<close>

datatype error =
    RuntimeError string
  | DuplicateSimplexError
  | DivisionByZero
  | UndefinedBehaviour string

record Simplex =
  vertices :: "VertexType list"
  data :: DataType

text \<open>
  Modelled from the spec: the class \<^verbatim>\<open>Simplex\<close> (topology/Simplex.hh) is not among
  the sources. Section 3 and 4.1 of the specification: a simplex holds a vertex set of
  distinct vertex identifiers in canonical sorted order and one filtration value; it is
  constructed from a vertex set (deduplicated, sorted) and a value; the dimension is
  derived from the number of vertices. The single-vertex constructor \<^verbatim>\<open>Simplex( id )\<close>
  value-initialises the data, which is zero for an arithmetic type.
\<close>

definition Simplex_init :: "VertexType list \<Rightarrow> DataType \<Rightarrow> Simplex" where
  "Simplex_init vs d = \<lparr> vertices = sort (remdups vs), data = d \<rparr>"

definition Simplex_vertex :: "VertexType \<Rightarrow> DataType \<Rightarrow> Simplex" where
  "Simplex_vertex v d = \<lparr> vertices = [v], data = d \<rparr>"

definition dimension :: "Simplex \<Rightarrow> int" where
  "dimension s = int (length (vertices s)) - 1"

definition setData :: "Simplex \<Rightarrow> DataType \<Rightarrow> Simplex" where
  "setData s d = s \<lparr> data := d \<rparr>"

text \<open>
  Modelled from the spec: the class \<^verbatim>\<open>SimplicialComplex\<close>
  (topology/SimplicialComplex.hh) is not among the sources. Section 4.1: a complex is
  built from an iterable of simplices, rejecting duplicate vertex sets with
  \<^verbatim>\<open>DuplicateSimplexError\<close>; it is iterated in its current stored order; replacing
  one simplex's value preserves its position.
\<close>

type_synonym SimplicialComplex = "Simplex list"

definition SimplicialComplex_init :: "Simplex list \<Rightarrow> error + SimplicialComplex" where
  "SimplicialComplex_init simplices =
     (if distinct (map vertices simplices) then Inr simplices else Inl DuplicateSimplexError)"

section \<open>The GML reader (topology/io/GML.hh)\<close>

text \<open>
  \<^verbatim>\<open>GMLReader::operator()\<close> has two stages. The first (lines 96 to 186) reads the
  stream line by line into the vectors \<^verbatim>\<open>nodes\<close> and \<^verbatim>\<open>edges\<close>. The second
  (lines 188 to 260) builds the simplicial complex from these two vectors.
\<close>

record Node =
  node_id :: string
  node_dict :: "string \<rightharpoonup> string"

record Edge =
  source :: string
  target :: string
  edge_dict :: "string \<rightharpoonup> string"

subsection \<open>Reading the lines\<close>

text \<open>
  The character classes of the three regular expressions, in the "C" locale.
\<close>

definition isalpha :: "char \<Rightarrow> bool" where
  "isalpha c = ((CHR ''a'' \<le> c \<and> c \<le> CHR ''z'') \<or> (CHR ''A'' \<le> c \<and> c \<le> CHR ''Z''))"

definition isspace :: "char \<Rightarrow> bool" where
  "isspace c = (c \<in> set [CHR 0x20, CHR 0x09, CHR 0x0A, CHR 0x0B, CHR 0x0C, CHR 0x0D])"

text \<open>
  \<^verbatim>\<open>std::regex_match\<close> succeeds when the whole line matches. Each function returns
  the sub-matches the reader uses, or \<open>None\<close> when the line does not match.

  \<^verbatim>\<open>reAttribute = ([[:alpha:]]+)[[:space:]]*.*\<close>: the first group is greedy, so it is
  the longest run of letters at the start of the line; the dot matches every character
  but line feed and carriage return.
\<close>

definition reAttribute :: "string \<Rightarrow> string option" where
  "reAttribute line =
     (let name = takeWhile isalpha line;
          rest = dropWhile isspace (dropWhile isalpha line)
      in if name \<noteq> [] \<and> list_all (\<lambda>c. c \<noteq> CHR 0x0A \<and> c \<noteq> CHR 0x0D) rest
         then Some name else None)"

text \<open>
  \<^verbatim>\<open>reKeyValue = ([[:alpha:]]+)[[:space:]]+([[:alpha:]]+)\<close>: letters, white space,
  letters, and nothing else. The second group is the value.
\<close>

definition reKeyValue :: "string \<Rightarrow> string option" where
  "reKeyValue line =
     (let key = takeWhile isalpha line;
          spaces = takeWhile isspace (dropWhile isalpha line);
          val = dropWhile isspace (dropWhile isalpha line)
      in if key \<noteq> [] \<and> spaces \<noteq> [] \<and> val \<noteq> [] \<and> list_all isalpha val
         then Some val else None)"

text \<open>
  \<^verbatim>\<open>reLabel = (label)[[:space:]]+"([^"]+)"\<close>: the word label, white space, and a
  quoted text that is not empty and holds no quote. The second group is the text
  between the quotes.
\<close>

definition reLabel :: "string \<Rightarrow> string option" where
  "reLabel line =
     (let spaces = takeWhile isspace (drop 5 line);
          quoted = dropWhile isspace (drop 5 line)
      in if take 5 line = ''label'' \<and> spaces \<noteq> [] \<and> 3 \<le> length quoted
            \<and> hd quoted = CHR 0x22 \<and> last quoted = CHR 0x22
            \<and> list_all (\<lambda>c. c \<noteq> CHR 0x22) (butlast (tl quoted))
         then Some (butlast (tl quoted)) else None)"

definition isLevel :: "string \<Rightarrow> bool" where
  "isLevel name = (name \<in> set [''graph'', ''node'', ''edge''])"

definition isAttribute :: "string \<Rightarrow> bool" where
  "isAttribute name = (name \<in> set [''id'', ''label'', ''source'', ''target'', ''weight''])"

text \<open>
  The variables of the loop. The stack \<^verbatim>\<open>currentLevel\<close> is a list with its top
  first.
\<close>

record ParseState =
  ps_currentLevel :: "string list"
  ps_lastLevel :: string
  ps_nodes :: "Node list"
  ps_edges :: "Edge list"
  ps_graph :: "string \<rightharpoonup> string"
  ps_node :: Node
  ps_edge :: Edge

definition empty_Node :: Node where
  "empty_Node = \<lparr> node_id = [], node_dict = Map.empty \<rparr>"

definition empty_Edge :: Edge where
  "empty_Edge = \<lparr> source = [], target = [], edge_dict = Map.empty \<rparr>"

definition initial_ParseState :: ParseState where
  "initial_ParseState =
     \<lparr> ps_currentLevel = [], ps_lastLevel = [], ps_nodes = [], ps_edges = [],
       ps_graph = Map.empty, ps_node = empty_Node, ps_edge = empty_Edge \<rparr>"

text \<open>
  Storing an attribute. \<^verbatim>\<open>id\<close>, \<^verbatim>\<open>source\<close> and \<^verbatim>\<open>target\<close> go to the node or
  edge under construction whatever the current level is; every other attribute goes to
  the dictionary of the current level.
\<close>

definition set_attribute :: "ParseState \<Rightarrow> string \<Rightarrow> string \<Rightarrow> string \<Rightarrow> ParseState" where
  "set_attribute st level name val =
     (if name = ''id'' then st \<lparr> ps_node := (ps_node st) \<lparr> node_id := val \<rparr> \<rparr>
      else if name = ''source'' then st \<lparr> ps_edge := (ps_edge st) \<lparr> source := val \<rparr> \<rparr>
      else if name = ''target'' then st \<lparr> ps_edge := (ps_edge st) \<lparr> target := val \<rparr> \<rparr>
      else if level = ''node''
      then st \<lparr> ps_node := (ps_node st) \<lparr> node_dict := (node_dict (ps_node st))(name \<mapsto> val) \<rparr> \<rparr>
      else if level = ''edge''
      then st \<lparr> ps_edge := (ps_edge st) \<lparr> edge_dict := (edge_dict (ps_edge st))(name \<mapsto> val) \<rparr> \<rparr>
      else st \<lparr> ps_graph := (ps_graph st)(name \<mapsto> val) \<rparr>)"

text \<open>
  One round of the loop. \<^verbatim>\<open>trim\<close> and \<^verbatim>\<open>split\<close> are the utilities of
  utilities/String.hh, which is not among the sources; they are parameters.
  \<^verbatim>\<open>currentLevel.top()\<close> on an empty stack has undefined behaviour. When the second
  match fails, \<^verbatim>\<open>matches[2]\<close> is an unmatched sub-match and the value is the empty
  string.
\<close>

definition parse_line ::
  "(string \<Rightarrow> string) \<Rightarrow> (string \<Rightarrow> string list) \<Rightarrow> ParseState \<Rightarrow> string \<Rightarrow> error + ParseState"
where
  "parse_line trim split st raw =
     (let line = trim raw; tokens = split line
      in if tokens \<noteq> [] \<and> hd tokens = ''comment'' then Inr st
         else if isLevel line then
           (if ps_lastLevel st = [] then Inr (st \<lparr> ps_lastLevel := line \<rparr>)
            else Inl (RuntimeError ''Encountered incorrectly-nested levels''))
         else if line = ''['' then
           Inr (st \<lparr> ps_currentLevel := ps_lastLevel st # ps_currentLevel st, ps_lastLevel := [] \<rparr>)
         else if line = '']'' then
           (case ps_currentLevel st of
              [] \<Rightarrow> Inl (UndefinedBehaviour ''currentLevel.top()'')
            | level # below \<Rightarrow>
                Inr (st \<lparr> ps_nodes := (if level = ''node'' then ps_nodes st @ [ps_node st]
                                        else ps_nodes st),
                          ps_edges := (if level = ''edge'' then ps_edges st @ [ps_edge st]
                                        else ps_edges st),
                          ps_node := empty_Node,
                          ps_edge := empty_Edge,
                          ps_currentLevel := below \<rparr>))
         else
           (case ps_currentLevel st of
              [] \<Rightarrow> Inl (UndefinedBehaviour ''currentLevel.top()'')
            | level # below \<Rightarrow>
                if level \<noteq> ''node'' \<and> level \<noteq> ''edge'' \<and> level \<noteq> ''graph''
                then Inl (RuntimeError ''Current level is unknown'')
                else
                  (case reAttribute line of
                     None \<Rightarrow> Inr st
                   | Some name \<Rightarrow>
                       if isAttribute name then
                         let val = (if name = ''label''
                                    then (case reLabel line of Some v \<Rightarrow> v | None \<Rightarrow> [])
                                    else (case reKeyValue line of Some v \<Rightarrow> v | None \<Rightarrow> []))
                         in Inr (set_attribute st level name val)
                       else Inr st)))"

fun parse_lines ::
  "(string \<Rightarrow> string) \<Rightarrow> (string \<Rightarrow> string list) \<Rightarrow> ParseState \<Rightarrow> string list \<Rightarrow> error + ParseState"
where
  "parse_lines trim split st [] = Inr st"
| "parse_lines trim split st (raw # rest) =
     (case parse_line trim split st raw of
        Inl e \<Rightarrow> Inl e
      | Inr st' \<Rightarrow> parse_lines trim split st' rest)"

text \<open>
  \<^verbatim>\<open>std::getline\<close>, repeated until the stream ends: the lines of a text, without their
  line feeds; a text that ends in a line feed has no empty line after it.
\<close>

definition getlines :: "string \<Rightarrow> string list" where
  "getlines content =
     foldr (\<lambda>c acc. if c = CHR 0x0A then [] # acc
                     else (case acc of [] \<Rightarrow> [[c]] | l # ls \<Rightarrow> (c # l) # ls))
       content []"

subsection \<open>Building the complex\<close>

text \<open>
  \<^verbatim>\<open>std::set<std::string> nodeIDs\<close>: a set of strings kept in ascending order,
  represented by the list of its elements in that order.
\<close>

definition set_insert :: "string \<Rightarrow> string list \<Rightarrow> string list" where
  "set_insert a xs = (if a \<in> set xs then xs else insort a xs)"

definition nodeIDs_of :: "Node list \<Rightarrow> string list" where
  "nodeIDs_of nodes = fold (\<lambda>node ids. set_insert (node_id node) ids) nodes []"

text \<open>
  \<^verbatim>\<open>std::distance( nodeIDs.begin(), nodeIDs.find( id ) )\<close>: the position of the
  identifier in the set, and the size of the set when \<^verbatim>\<open>find\<close> returns
  \<^verbatim>\<open>end()\<close>.
\<close>

fun position :: "string list \<Rightarrow> string \<Rightarrow> nat" where
  "position [] a = 0"
| "position (x # xs) a = (if x = a then 0 else Suc (position xs a))"

definition getID :: "string list \<Rightarrow> string \<Rightarrow> VertexType" where
  "getID nodeIDs a = position nodeIDs a"

definition create_node :: "(string \<Rightarrow> DataType) \<Rightarrow> string list \<Rightarrow> Node \<Rightarrow> Simplex" where
  "create_node convert nodeIDs node =
     (let i = getID nodeIDs (node_id node)
      in case node_dict node ''weight'' of
           Some w \<Rightarrow> Simplex_vertex i (convert w)
         | None \<Rightarrow> Simplex_vertex i 0)"

definition getSimplexByID :: "Simplex list \<Rightarrow> VertexType \<Rightarrow> error + Simplex" where
  "getSimplexByID simplices i =
     (case find (\<lambda>s. dimension s = 0 \<and> vertices s ! 0 = i) simplices of
        Some s \<Rightarrow> Inr s
      | None \<Rightarrow> Inl (RuntimeError ''Querying unknown simplex for edge creation''))"

text \<open>
  The loop over \<^verbatim>\<open>edges\<close>. Each edge appends one simplex to \<^verbatim>\<open>simplices\<close>, and
  the lookups of a later edge see the simplices appended by the earlier ones.
\<close>

fun create_edges ::
  "(string \<Rightarrow> DataType) \<Rightarrow> string list \<Rightarrow> Edge list \<Rightarrow> Simplex list \<Rightarrow> error + Simplex list"
where
  "create_edges convert nodeIDs [] simplices = Inr simplices"
| "create_edges convert nodeIDs (edge # edges) simplices =
     (let u = getID nodeIDs (source edge); v = getID nodeIDs (target edge)
      in case edge_dict edge ''weight'' of
           None \<Rightarrow>
             (case getSimplexByID simplices u of
                Inl e \<Rightarrow> Inl e
              | Inr uSimplex \<Rightarrow>
                  (case getSimplexByID simplices v of
                     Inl e \<Rightarrow> Inl e
                   | Inr vSimplex \<Rightarrow>
                       create_edges convert nodeIDs edges
                         (simplices @ [Simplex_init [u, v] (max (data uSimplex) (data vSimplex))])))
         | Some w \<Rightarrow>
             create_edges convert nodeIDs edges (simplices @ [Simplex_init [u, v] (convert w)]))"

definition GMLReader_build ::
  "(string \<Rightarrow> DataType) \<Rightarrow> Node list \<Rightarrow> Edge list \<Rightarrow> error + SimplicialComplex"
where
  "GMLReader_build convert nodes edges =
     (let nodeIDs = nodeIDs_of nodes
      in if length nodeIDs \<noteq> length nodes
         then Inl (RuntimeError ''Encountered duplicate node ID'')
         else case create_edges convert nodeIDs edges (map (create_node convert nodeIDs) nodes) of
                Inl e \<Rightarrow> Inl e
              | Inr simplices \<Rightarrow> SimplicialComplex_init simplices)"


subsection \<open>The two operators\<close>

text \<open>
  \<^verbatim>\<open>operator()( std::ifstream& in, SimplicialComplex& K )\<close> on the lines of the
  stream, and \<^verbatim>\<open>operator()( const std::string& filename, SimplicialComplex& K )\<close>,
  which opens the file and throws when the stream is not good. The file system is a
  partial map from file names to contents.
\<close>

definition GMLReader_stream ::
  "(string \<Rightarrow> string) \<Rightarrow> (string \<Rightarrow> string list) \<Rightarrow> (string \<Rightarrow> DataType) \<Rightarrow> string list
     \<Rightarrow> error + SimplicialComplex"
where
  "GMLReader_stream trim split convert lines =
     (case parse_lines trim split initial_ParseState lines of
        Inl e \<Rightarrow> Inl e
      | Inr st \<Rightarrow> GMLReader_build convert (ps_nodes st) (ps_edges st))"

type_synonym FileSystem = "string \<rightharpoonup> string"

definition GMLReader ::
  "(string \<Rightarrow> string) \<Rightarrow> (string \<Rightarrow> string list) \<Rightarrow> (string \<Rightarrow> DataType) \<Rightarrow> FileSystem \<Rightarrow> string
     \<Rightarrow> error + SimplicialComplex"
where
  "GMLReader trim split convert fs filename =
     (case fs filename of
        None \<Rightarrow> Inl (RuntimeError ''Unable to read input file'')
      | Some content \<Rightarrow> GMLReader_stream trim split convert (getlines content))"

section \<open>Persistence diagrams\<close>

text \<open>
  Modelled from the spec: the class \<^verbatim>\<open>PersistenceDiagram\<close>
  (persistenceDiagrams/PersistenceDiagram.hh) is not among the sources. Section 3: a
  diagram has a dimension and a multiset of points (birth, death), where the death is
  either a value or the sentinel "unpaired"; the sentinel is \<open>None\<close> here, and it is the
  only death value that is not finite. Section 4.4: \<^verbatim>\<open>removeDiagonal\<close> drops every
  point with birth equal to death and keeps the unpaired points. Section 6: a diagram is
  written as one line per point, birth, a tabulator, death. An unpaired death that reaches
  the output stream is printed the way the stream prints an infinite value, as the token
  \<^verbatim>\<open>inf\<close>.
\<close>

record Point =
  point_x :: DataType
  point_y :: "DataType option"

record PersistenceDiagram =
  pd_dimension :: nat
  points :: "Point list"

definition isUnpaired :: "Point \<Rightarrow> bool" where
  "isUnpaired p = (point_y p = None)"

definition removeDiagonal :: "PersistenceDiagram \<Rightarrow> PersistenceDiagram" where
  "removeDiagonal pd = pd \<lparr> points := filter (\<lambda>p. point_y p \<noteq> Some (point_x p)) (points pd) \<rparr>"

definition write_death :: "(DataType \<Rightarrow> string) \<Rightarrow> DataType option \<Rightarrow> string" where
  "write_death show_value d = (case d of None \<Rightarrow> ''inf'' | Some v \<Rightarrow> show_value v)"

definition write_point :: "(DataType \<Rightarrow> string) \<Rightarrow> Point \<Rightarrow> string" where
  "write_point show_value p =
     show_value (point_x p) @ [CHR 0x09] @ write_death show_value (point_y p) @ [CHR 0x0A]"

definition write_diagram :: "(DataType \<Rightarrow> string) \<Rightarrow> PersistenceDiagram \<Rightarrow> string" where
  "write_diagram show_value pd = concat (map (write_point show_value) (points pd))"

section \<open>Collaborators outside the sources\<close>

text \<open>
  The tools call library functions whose code is not among the sources. Each is a
  parameter of the model, collected in one record. Library functions are pure: the
  specification describes the expander and the persistence engine as stateless transforms
  that return fresh values. \<^verbatim>\<open>lib_show\<close> is the stream output of a floating-point
  value; the three \<^verbatim>\<open>parse\<close> fields turn the content of a readable file into the
  reader's result.
\<close>

record Library =
  lib_convert :: "string \<Rightarrow> DataType"
  lib_stoul :: "string \<Rightarrow> error + nat"
  lib_show :: "DataType \<Rightarrow> string"
  lib_extension :: "string \<Rightarrow> string"
  lib_stem :: "string \<Rightarrow> string"
  lib_basename :: "string \<Rightarrow> string"
  lib_format :: "nat \<Rightarrow> nat \<Rightarrow> string"
  lib_trim :: "string \<Rightarrow> string"
  lib_split :: "string \<Rightarrow> string list"
  lib_Pajek_parse :: "string \<Rightarrow> error + SimplicialComplex"
  lib_EdgeList_parse :: "string \<Rightarrow> error + SimplicialComplex"
  lib_SparseAdjacencyMatrix_parse :: "string \<Rightarrow> error + SimplicialComplex list"
  lib_RipsExpander :: "SimplicialComplex \<Rightarrow> nat \<Rightarrow> SimplicialComplex"
  lib_assignMaximumWeight :: "SimplicialComplex \<Rightarrow> SimplicialComplex"
  lib_assignData_sum :: "SimplicialComplex \<Rightarrow> DataType list \<Rightarrow> SimplicialComplex"
  lib_assignMaximumData :: "SimplicialComplex \<Rightarrow> DataType list \<Rightarrow> SimplicialComplex"
  lib_sort :: "SimplicialComplex \<Rightarrow> SimplicialComplex"
  lib_sort_Data :: "SimplicialComplex \<Rightarrow> SimplicialComplex"
  lib_degrees :: "SimplicialComplex \<Rightarrow> nat list"
  lib_calculatePersistenceDiagrams :: "SimplicialComplex \<Rightarrow> bool \<Rightarrow> bool \<Rightarrow> PersistenceDiagram list"
  lib_calculatePersistenceDiagrams_default :: "SimplicialComplex \<Rightarrow> PersistenceDiagram list"

text \<open>
  Modelled from the spec: the readers \<^verbatim>\<open>PajekReader\<close>, \<^verbatim>\<open>EdgeListReader\<close> and
  \<^verbatim>\<open>SparseAdjacencyMatrixReader\<close> are not among the sources. Section 6: errors during
  file access or parsing abort the whole run. A reader therefore throws on a file that
  cannot be read, as the GML reader does, and otherwise returns what parsing the content
  gives.
\<close>

definition read_file :: "(string \<Rightarrow> error + 'a) \<Rightarrow> FileSystem \<Rightarrow> string \<Rightarrow> error + 'a" where
  "read_file parse fs filename =
     (case fs filename of
        None \<Rightarrow> Inl (RuntimeError ''Unable to read input file'')
      | Some content \<Rightarrow> parse content)"

text \<open>
  Modelled from the spec: the class \<^verbatim>\<open>RipsExpander\<close> (geometry/RipsExpander.hh) is
  not among the sources. Section 4.2: the expansion generates every simplex of dimension
  at most \<open>k\<close> whose vertex set is a clique in the 1-skeleton, that is, all pairwise edges
  are present. The definition gives the vertex sets of the expansion.
\<close>

definition is_clique :: "SimplicialComplex \<Rightarrow> VertexType list \<Rightarrow> bool" where
  "is_clique K vs =
     (vs \<noteq> [] \<and> list_all (\<lambda>u. [u] \<in> set (map vertices K)) vs
      \<and> list_all (\<lambda>u. list_all (\<lambda>v. v \<le> u \<or> [u, v] \<in> set (map vertices K)) vs) vs)"

definition Rips_vertex_sets :: "SimplicialComplex \<Rightarrow> nat \<Rightarrow> VertexType list list" where
  "Rips_vertex_sets K k =
     filter (\<lambda>vs. length vs \<le> k + 1 \<and> is_clique K vs)
       (subseqs (sort (remdups (concat (map vertices K)))))"

text \<open>
  The command line after \<^verbatim>\<open>getopt_long\<close>: the option characters it returned, each with
  its \<^verbatim>\<open>optarg\<close>, and the arguments from \<^verbatim>\<open>argv[optind]\<close> on. An unknown option
  is returned as the character \<^verbatim>\<open>?\<close>.
\<close>

record CommandLine =
  options :: "(char \<times> string) list"
  positional :: "string list"

text \<open>
  A run of \<^verbatim>\<open>main\<close> either ends with an uncaught exception (\<open>Inl\<close>) or returns a
  value and has written diagram files, listed in the order of writing as pairs of path
  and content. The exit status of the process is the returned value modulo 256. The other
  outputs (messages on the error stream, closeness centrality values, exported graphs,
  the label list) are not part of the model.
\<close>

type_synonym Files = "(string \<times> string) list"
type_synonym Run = "error + int \<times> Files"

definition exit_status :: "int \<Rightarrow> int" where
  "exit_status r = r mod 256"

text \<open>
  \<^verbatim>\<open>std::to_string\<close> and the stream output of an unsigned integer: its decimal
  digits.
\<close>

fun to_string :: "nat \<Rightarrow> string" where
  "to_string n =
     (if n < 10 then [''0123456789'' ! n]
      else to_string (n div 10) @ [''0123456789'' ! (n mod 10)])"

declare to_string.simps [simp del]

section \<open>The network tool (src/tools/network_persistence_diagrams.cc)\<close>

text \<open>
  \<^verbatim>\<open>std::numeric_limits<double>::max()\<close> and \<^verbatim>\<open>lowest()\<close>.
\<close>

definition DataType_max :: DataType where
  "DataType_max = 2 ^ 1024 - 2 ^ 971"

definition DataType_lowest :: DataType where
  "DataType_lowest = - DataType_max"

fun network_options :: "(char \<times> string) list \<Rightarrow> bool \<times> bool \<Rightarrow> bool \<times> bool" where
  "network_options [] (invertWeights, normalize') = (invertWeights, normalize')"
| "network_options ((option, optarg) # rest) (invertWeights, normalize') =
     (if option = CHR ''i'' then network_options rest (True, normalize')
      else if option = CHR ''n'' then network_options rest (invertWeights, True)
      else network_options rest (invertWeights, normalize'))"

definition network_read :: "Library \<Rightarrow> FileSystem \<Rightarrow> string \<Rightarrow> error + SimplicialComplex" where
  "network_read L fs filename =
     (if lib_extension L filename = ''.gml''
      then GMLReader (lib_trim L) (lib_split L) (lib_convert L) fs filename
      else if lib_extension L filename = ''.net''
      then read_file (lib_Pajek_parse L) fs filename
      else read_file (lib_EdgeList_parse L) fs filename)"

text \<open>The first loop of the pre-processing: the pair (\<^verbatim>\<open>maxWeight\<close>, \<^verbatim>\<open>minWeight\<close>).\<close>

definition weight_range :: "SimplicialComplex \<Rightarrow> DataType \<times> DataType" where
  "weight_range K =
     fold (\<lambda>simplex (maxWeight, minWeight).
             (max maxWeight (data simplex), min minWeight (data simplex)))
       K (DataType_lowest, DataType_max)"

text \<open>
  A quotient whose divisor is zero has no value among the rationals (IEEE arithmetic
  gives an infinity or NaN); the model stops there with \<open>DivisionByZero\<close>.
\<close>

definition divide_DataType :: "DataType \<Rightarrow> DataType \<Rightarrow> error + DataType" where
  "divide_DataType a b = (if b = 0 then Inl DivisionByZero else Inr (a / b))"

fun normalize_loop :: "DataType \<Rightarrow> DataType \<Rightarrow> SimplicialComplex \<Rightarrow> error + SimplicialComplex" where
  "normalize_loop minWeight range' [] = Inr []"
| "normalize_loop minWeight range' (s # K) =
     (if dimension s = 0
      then (case normalize_loop minWeight range' K of
              Inl e \<Rightarrow> Inl e
            | Inr K' \<Rightarrow> Inr (s # K'))
      else (case divide_DataType (data s - minWeight) range' of
              Inl e \<Rightarrow> Inl e
            | Inr q \<Rightarrow>
                (case normalize_loop minWeight range' K of
                   Inl e \<Rightarrow> Inl e
                 | Inr K' \<Rightarrow> Inr (setData s q # K'))))"

text \<open>
  The normalisation block: the complex and the values of \<^verbatim>\<open>maxWeight\<close> and
  \<^verbatim>\<open>minWeight\<close> after it.
\<close>

definition normalize_weights ::
  "bool \<Rightarrow> SimplicialComplex \<Rightarrow> error + SimplicialComplex \<times> DataType \<times> DataType"
where
  "normalize_weights normalize' K =
     (let (maxWeight, minWeight) = weight_range K
      in if normalize' \<and> maxWeight \<noteq> minWeight
         then (case normalize_loop minWeight (maxWeight - minWeight) K of
                 Inl e \<Rightarrow> Inl e
               | Inr K' \<Rightarrow> Inr (K', 1, 0))
         else Inr (K, maxWeight, minWeight))"

definition invert_weights :: "bool \<Rightarrow> DataType \<Rightarrow> SimplicialComplex \<Rightarrow> SimplicialComplex" where
  "invert_weights invertWeights maxWeight K =
     (if invertWeights
      then map (\<lambda>s. if dimension s = 0 then s else setData s (maxWeight - data s)) K
      else K)"

text \<open>
  The output loop: the diagonal is removed, every point whose death is not finite gets
  the death \<^verbatim>\<open>2 * maxWeight\<close>, and the file holds two header lines, the diagram and
  one more line break.
\<close>

definition substitute_infinite :: "DataType \<Rightarrow> Point \<Rightarrow> Point" where
  "substitute_infinite maxWeight p =
     (if point_y p = None then \<lparr> point_x = point_x p, point_y = Some (2 * maxWeight) \<rparr> else p)"

definition network_write ::
  "Library \<Rightarrow> string \<Rightarrow> nat \<Rightarrow> DataType \<Rightarrow> PersistenceDiagram \<Rightarrow> string \<times> string"
where
  "network_write L filename maxK maxWeight pd0 =
     (let pd = removeDiagonal pd0;
          outputFilename = ''/tmp/'' @ lib_stem L (lib_basename L filename) @ ''_d''
                           @ lib_format L (pd_dimension pd mod 2 ^ 32) maxK @ ''.txt'';
          pd = pd \<lparr> points := map (substitute_infinite maxWeight) (points pd) \<rparr>
      in (outputFilename,
          ''# Original filename: '' @ filename @ [CHR 0x0A]
          @ ''# d                : '' @ to_string (pd_dimension pd) @ [CHR 0x0A]
          @ write_diagram (lib_show L) pd @ [CHR 0x0A]))"

text \<open>
  \<^verbatim>\<open>main\<close>: the option loop, the check for the two positional arguments, the
  reader chosen by the file name's extension, the pre-processing, expansion and sorting,
  the persistence computation, and the output loop. \<^verbatim>\<open>usage()\<close> prints nothing.
\<close>

definition network_main :: "Library \<Rightarrow> FileSystem \<Rightarrow> CommandLine \<Rightarrow> Run" where
  "network_main L fs cl =
     (let (invertWeights, normalize') = network_options (options cl) (False, False)
      in if length (positional cl) < 2 then Inr (- 1, [])
         else
           let filename = positional cl ! 0
           in case lib_stoul L (positional cl ! 1) of
                Inl e \<Rightarrow> Inl e
              | Inr n \<Rightarrow>
                  let maxK = n mod 2 ^ 32
                  in case network_read L fs filename of
                       Inl e \<Rightarrow> Inl e
                     | Inr K \<Rightarrow>
                         (case normalize_weights normalize' K of
                            Inl e \<Rightarrow> Inl e
                          | Inr (K, maxWeight, minWeight) \<Rightarrow>
                              let K = invert_weights invertWeights maxWeight K;
                                  K = lib_RipsExpander L K maxK;
                                  K = lib_assignMaximumWeight L K;
                                  K = lib_sort_Data L K;
                                  persistenceDiagrams = lib_calculatePersistenceDiagrams_default L K
                              in Inr (0, map (network_write L filename maxK maxWeight)
                                            persistenceDiagrams)))"

section \<open>The batch tool (src/tools/sparse_adjacency_matrices.cc)\<close>

text \<open>
  The variables set by the option loop, with their initial values. An option character
  that is none of the six known ones throws.
\<close>

record BatchOptions =
  opt_dimension :: nat
  opt_calculateClosenessCentrality :: bool
  opt_storeGraphs :: bool
  opt_useSumOfDegrees :: bool
  opt_infinity :: DataType
  opt_output :: string

definition default_options :: BatchOptions where
  "default_options =
     \<lparr> opt_dimension = 0, opt_calculateClosenessCentrality = False, opt_storeGraphs = False,
       opt_useSumOfDegrees = False, opt_infinity = 2, opt_output = ''/tmp'' \<rparr>"

fun batch_options :: "Library \<Rightarrow> (char \<times> string) list \<Rightarrow> BatchOptions \<Rightarrow> error + BatchOptions" where
  "batch_options L [] opts = Inr opts"
| "batch_options L ((option, optarg) # rest) opts =
     (if option = CHR ''d'' then
        (case lib_stoul L optarg of
           Inl e \<Rightarrow> Inl e
         | Inr n \<Rightarrow> batch_options L rest (opts \<lparr> opt_dimension := n mod 2 ^ 32 \<rparr>))
      else if option = CHR ''f'' then
        batch_options L rest (opts \<lparr> opt_infinity := lib_convert L optarg \<rparr>)
      else if option = CHR ''o'' then
        batch_options L rest (opts \<lparr> opt_output := optarg \<rparr>)
      else if option = CHR ''c'' then
        batch_options L rest (opts \<lparr> opt_calculateClosenessCentrality := True \<rparr>)
      else if option = CHR ''g'' then
        batch_options L rest (opts \<lparr> opt_storeGraphs := True \<rparr>)
      else if option = CHR ''s'' then
        batch_options L rest (opts \<lparr> opt_useSumOfDegrees := True \<rparr>)
      else Inl (RuntimeError ''Unknown command-line arugment''))"

text \<open>
  The closeness centrality block sorts every complex in place before it writes its values.
\<close>

definition closeness_step :: "Library \<Rightarrow> bool \<Rightarrow> SimplicialComplex list \<Rightarrow> SimplicialComplex list" where
  "closeness_step L calculateClosenessCentrality simplicialComplexes =
     (if calculateClosenessCentrality then map (lib_sort L) simplicialComplexes
      else simplicialComplexes)"

text \<open>
  The expansion block calls \<^verbatim>\<open>expander( K, dimension )\<close> on every complex as a
  statement of its own: the complex that the call returns is a temporary that nothing
  receives, and \<^verbatim>\<open>K\<close> stays as it is.
\<close>

fun expand_loop ::
  "(SimplicialComplex \<Rightarrow> nat \<Rightarrow> SimplicialComplex) \<Rightarrow> nat \<Rightarrow> SimplicialComplex list
     \<Rightarrow> SimplicialComplex list"
where
  "expand_loop expander dimension' [] = []"
| "expand_loop expander dimension' (K # rest) =
     (let temporary = expander K dimension'
      in K # expand_loop expander dimension' rest)"

definition expansion_step ::
  "(SimplicialComplex \<Rightarrow> nat \<Rightarrow> SimplicialComplex) \<Rightarrow> nat \<Rightarrow> SimplicialComplex list
     \<Rightarrow> SimplicialComplex list"
where
  "expansion_step expander dimension' simplicialComplexes =
     (if dimension' \<noteq> 0 then expand_loop expander dimension' simplicialComplexes
      else simplicialComplexes)"

text \<open>
  \<^verbatim>\<open>*std::max_element( first, last )\<close> on a range that is not empty; the tool guards
  the call with \<^verbatim>\<open>!degrees.empty()\<close>.
\<close>

fun max_element :: "DataType list \<Rightarrow> DataType" where
  "max_element (d # ds) = fold (\<lambda>it largest. if largest < it then it else largest) ds d"

text \<open>
  The degree loop: it returns \<^verbatim>\<open>maxDegree\<close> and the complexes with their degree
  filtration, sorted.
\<close>

fun degree_loop ::
  "Library \<Rightarrow> bool \<Rightarrow> SimplicialComplex list \<Rightarrow> DataType \<Rightarrow> DataType \<times> SimplicialComplex list"
where
  "degree_loop L useSumOfDegrees [] maxDegree = (maxDegree, [])"
| "degree_loop L useSumOfDegrees (K # rest) maxDegree =
     (let degrees_unsigned = lib_degrees L K;
          degrees = map of_nat degrees_unsigned;
          maxDegree = (if degrees \<noteq> [] then max maxDegree (max_element degrees) else maxDegree);
          K = (if useSumOfDegrees then lib_assignData_sum L K degrees
               else lib_assignMaximumData L K degrees);
          K = lib_sort_Data L K;
          (maxDegree, rest) = degree_loop L useSumOfDegrees rest maxDegree
      in (maxDegree, K # rest))"

text \<open>
  The persistence loop writes, for the complex at position \<^verbatim>\<open>index\<close>, one file per
  diagram; an unpaired point gets the death \<^verbatim>\<open>infinity * maxDegree\<close>.
\<close>

definition batch_point :: "Library \<Rightarrow> DataType \<Rightarrow> DataType \<Rightarrow> Point \<Rightarrow> string" where
  "batch_point L infinity maxDegree point =
     (if isUnpaired point
      then lib_show L (point_x point) @ [CHR 0x09] @ lib_show L (infinity * maxDegree) @ [CHR 0x0A]
      else lib_show L (point_x point) @ [CHR 0x09] @ write_death (lib_show L) (point_y point)
           @ [CHR 0x0A])"

definition batch_diagram :: "Library \<Rightarrow> DataType \<Rightarrow> DataType \<Rightarrow> PersistenceDiagram \<Rightarrow> string" where
  "batch_diagram L infinity maxDegree diagram0 =
     (let diagram = removeDiagonal diagram0
      in concat (map (batch_point L infinity maxDegree) (points diagram)))"

definition batch_write ::
  "Library \<Rightarrow> string \<Rightarrow> DataType \<Rightarrow> DataType \<Rightarrow> nat \<Rightarrow> nat \<Rightarrow> SimplicialComplex \<Rightarrow> Files"
where
  "batch_write L output infinity maxDegree size' index K =
     (let dualize = True;
          includeAllUnpairedCreators = True;
          diagrams = lib_calculatePersistenceDiagrams L K dualize includeAllUnpairedCreators
      in map (\<lambda>diagram.
                (output @ lib_format L index size' @ ''_d''
                   @ to_string (pd_dimension (removeDiagonal diagram)) @ ''.txt'',
                 batch_diagram L infinity maxDegree diagram))
           diagrams)"

fun persistence_loop ::
  "Library \<Rightarrow> string \<Rightarrow> DataType \<Rightarrow> DataType \<Rightarrow> nat \<Rightarrow> nat \<Rightarrow> SimplicialComplex list \<Rightarrow> Files list"
where
  "persistence_loop L output infinity maxDegree size' index [] = []"
| "persistence_loop L output infinity maxDegree size' index (K # rest) =
     batch_write L output infinity maxDegree size' index K
     # persistence_loop L output infinity maxDegree size' (index + 1) rest"

text \<open>
  Everything the batch tool does with the complexes it has read: for every complex, in
  the order of processing, the diagram files written for it.
\<close>

definition batch_process :: "Library \<Rightarrow> BatchOptions \<Rightarrow> string \<Rightarrow> SimplicialComplex list \<Rightarrow> Files list" where
  "batch_process L opts output simplicialComplexes =
     (let simplicialComplexes =
            closeness_step L (opt_calculateClosenessCentrality opts) simplicialComplexes;
          simplicialComplexes =
            expansion_step (lib_RipsExpander L) (opt_dimension opts) simplicialComplexes;
          (maxDegree, simplicialComplexes) =
            degree_loop L (opt_useSumOfDegrees opts) simplicialComplexes 0
      in persistence_loop L output (opt_infinity opts) maxDegree
           (length simplicialComplexes) 0 simplicialComplexes)"

text \<open>
  \<^verbatim>\<open>main\<close>: the option loop, the check for the positional argument, the slash
  appended to the output directory, the reader, and the processing of the complexes.
  \<^verbatim>\<open>output.back()\<close> on an empty string has undefined behaviour.
\<close>

definition batch_main :: "Library \<Rightarrow> FileSystem \<Rightarrow> CommandLine \<Rightarrow> Run" where
  "batch_main L fs cl =
     (case batch_options L (options cl) default_options of
        Inl e \<Rightarrow> Inl e
      | Inr opts \<Rightarrow>
          if length (positional cl) < 1 then Inr (- 1, [])
          else if opt_output opts = [] then Inl (UndefinedBehaviour ''output.back()'')
          else
            let output = (if last (opt_output opts) \<noteq> CHR ''/'' then opt_output opts @ ''/''
                          else opt_output opts);
                filename = positional cl ! 0
            in case read_file (lib_SparseAdjacencyMatrix_parse L) fs filename of
                 Inl e \<Rightarrow> Inl e
               | Inr simplicialComplexes \<Rightarrow>
                   Inr (0, concat (batch_process L opts output simplicialComplexes)))"

section \<open>Notions used in the statements\<close>

text \<open>
  What the edge loop leaves behind for one edge: the simplex appended for it, given the
  simplices that were in the vector when the edge was reached.
\<close>

definition edge_simplex_ok ::
  "(string \<Rightarrow> DataType) \<Rightarrow> string list \<Rightarrow> Edge \<Rightarrow> Simplex list \<Rightarrow> Simplex \<Rightarrow> bool"
where
  "edge_simplex_ok convert nodeIDs edge prefix s =
     (let u = getID nodeIDs (source edge); v = getID nodeIDs (target edge)
      in case edge_dict edge ''weight'' of
           Some w \<Rightarrow> s = Simplex_init [u, v] (convert w)
         | None \<Rightarrow>
             (\<exists>uS vS. getSimplexByID prefix u = Inr uS \<and> getSimplexByID prefix v = Inr vS
                \<and> s = Simplex_init [u, v] (max (data uS) (data vS))))"


text \<open>
  One line of a diagram file as the specification describes it: birth, a tabulator, and
  a death that is a value, with \<open>substitute\<close> standing in for an unpaired point. The
  infinity token does not occur in it.
\<close>

definition finite_line :: "(DataType \<Rightarrow> string) \<Rightarrow> DataType \<Rightarrow> Point \<Rightarrow> string" where
  "finite_line show_value substitute p =
     show_value (point_x p) @ [CHR 0x09]
     @ show_value (case point_y p of None \<Rightarrow> substitute | Some d \<Rightarrow> d) @ [CHR 0x0A]"

text \<open>
  The diagrams the network tool computes from the complex that leaves the
  normalisation block.
\<close>

definition network_diagrams ::
  "Library \<Rightarrow> bool \<Rightarrow> nat \<Rightarrow> DataType \<Rightarrow> SimplicialComplex \<Rightarrow> PersistenceDiagram list"
where
  "network_diagrams L invertWeights maxK maxWeight K =
     lib_calculatePersistenceDiagrams_default L
       (lib_sort_Data L
          (lib_assignMaximumWeight L
             (lib_RipsExpander L (invert_weights invertWeights maxWeight K) maxK)))"

text \<open>
  What the degree loop of the batch tool does to one complex, the diagrams the batch tool
  computes for one input complex, and the largest vertex degree over a whole batch (zero
  when no complex has a vertex).
\<close>

definition degree_filtration :: "Library \<Rightarrow> bool \<Rightarrow> SimplicialComplex \<Rightarrow> SimplicialComplex" where
  "degree_filtration L useSumOfDegrees K =
     lib_sort_Data L
       (if useSumOfDegrees then lib_assignData_sum L K (map of_nat (lib_degrees L K))
        else lib_assignMaximumData L K (map of_nat (lib_degrees L K)))"

definition graph_diagrams :: "Library \<Rightarrow> BatchOptions \<Rightarrow> SimplicialComplex \<Rightarrow> PersistenceDiagram list" where
  "graph_diagrams L opts K =
     lib_calculatePersistenceDiagrams L
       (degree_filtration L (opt_useSumOfDegrees opts)
          (if opt_calculateClosenessCentrality opts then lib_sort L K else K)) True True"

definition batch_maxDegree :: "Library \<Rightarrow> SimplicialComplex list \<Rightarrow> DataType" where
  "batch_maxDegree L Ks = Max (insert 0 (\<Union>K \<in> set Ks. of_nat ` set (lib_degrees L K)))"

section \<open>Concrete inputs\<close>

text \<open>
  The graph of the comment at the end of GML.hh, with a weight on node B and on the
  second edge: the vectors the reader fills, a text that holds it, and the complex the
  reader builds from it when a weight converts to the number of its characters.
\<close>

definition example_nodes :: "Node list" where
  "example_nodes =
     [\<lparr> node_id = ''B'', node_dict = [''weight'' \<mapsto> ''abc''] \<rparr>,
      \<lparr> node_id = ''A'', node_dict = Map.empty \<rparr>,
      \<lparr> node_id = ''C'', node_dict = Map.empty \<rparr>]"

definition example_edges :: "Edge list" where
  "example_edges =
     [\<lparr> source = ''B'', target = ''A'', edge_dict = Map.empty \<rparr>,
      \<lparr> source = ''C'', target = ''A'', edge_dict = [''weight'' \<mapsto> ''abcde''] \<rparr>]"

definition unlines :: "string list \<Rightarrow> string" where
  "unlines ls = concat (map (\<lambda>l. l @ [CHR 0x0A]) ls)"

definition example_gml :: string where
  "example_gml = unlines
     [''graph'', ''['',
      ''  node'', ''  ['', ''   id B'', ''   weight abc'', ''  ]'',
      ''  node'', ''  ['', ''   id A'', ''  ]'',
      ''  node'', ''  ['', ''   id C'', ''  ]'',
      ''  edge'', ''  ['', ''   source B'', ''   target A'', ''  ]'',
      ''  edge'', ''  ['', ''   source C'', ''   target A'', ''   weight abcde'', ''  ]'',
      '']'']"

definition example_complex :: SimplicialComplex where
  "example_complex =
     [\<lparr> vertices = [1], data = 3 \<rparr>, \<lparr> vertices = [0], data = 0 \<rparr>, \<lparr> vertices = [2], data = 0 \<rparr>,
      \<lparr> vertices = [0, 1], data = 3 \<rparr>, \<lparr> vertices = [0, 2], data = 5 \<rparr>]"



definition dangling_nodes :: "Node list" where
  "dangling_nodes =
     [\<lparr> node_id = ''A'', node_dict = Map.empty \<rparr>, \<lparr> node_id = ''B'', node_dict = Map.empty \<rparr>]"

definition dangling_edge_weighted :: "Edge list" where
  "dangling_edge_weighted =
     [\<lparr> source = ''A'', target = ''Z'', edge_dict = [''weight'' \<mapsto> ''w''] \<rparr>]"

definition dangling_gml :: string where
  "dangling_gml = unlines
     [''graph'', ''['',
      ''  node'', ''  ['', ''   id A'', ''  ]'',
      ''  node'', ''  ['', ''   id B'', ''  ]'',
      ''  edge'', ''  ['', ''   source A'', ''   target Z'', ''   weight w'', ''  ]'',
      '']'']"

definition dangling_edge_unweighted :: "Edge list" where
  "dangling_edge_unweighted = [\<lparr> source = ''A'', target = ''Z'', edge_dict = Map.empty \<rparr>]"



definition constant_network :: SimplicialComplex where
  "constant_network =
     [\<lparr> vertices = [0], data = 3 \<rparr>, \<lparr> vertices = [1], data = 3 \<rparr>, \<lparr> vertices = [0, 1], data = 3 \<rparr>]"

definition example_triangle :: SimplicialComplex where
  "example_triangle =
     [\<lparr> vertices = [0], data = 0 \<rparr>, \<lparr> vertices = [1], data = 0 \<rparr>, \<lparr> vertices = [2], data = 0 \<rparr>,
      \<lparr> vertices = [0, 1], data = 1 \<rparr>, \<lparr> vertices = [0, 2], data = 2 \<rparr>,
      \<lparr> vertices = [1, 2], data = 3 \<rparr>]"

text \<open>A batch of two graphs: a single edge, and a path on three vertices.\<close>

definition single_edge :: SimplicialComplex where
  "single_edge =
     [\<lparr> vertices = [0], data = 0 \<rparr>, \<lparr> vertices = [1], data = 0 \<rparr>, \<lparr> vertices = [0, 1], data = 5 \<rparr>]"

definition path_graph :: SimplicialComplex where
  "path_graph =
     [\<lparr> vertices = [0], data = 0 \<rparr>, \<lparr> vertices = [1], data = 0 \<rparr>, \<lparr> vertices = [2], data = 0 \<rparr>,
      \<lparr> vertices = [0, 1], data = 7 \<rparr>, \<lparr> vertices = [1, 2], data = 7 \<rparr>]"

text \<open>
  One instance of the collaborators, for running the tools on the concrete inputs. The
  theorems below hold for every instance; this one is small enough to compute with.
  A string converts to its length; a value is printed as the decimal of its integer
  part; trimming removes the white space at both ends and splitting cuts at white space; the degree of a vertex counts the edges that contain it; a simplex gets the
  largest (or the sum) of its vertices' degrees; sorting is by value and stable; the
  expander leaves a graph as it is. The engine is a stand-in, not a persistence
  computation: it reports one diagram of dimension zero with an unpaired point for every
  vertex and, for every other simplex, a point from the first simplex's value to its own.
\<close>

definition witness_trim :: "string \<Rightarrow> string" where
  "witness_trim s = rev (dropWhile isspace (rev (dropWhile isspace s)))"

definition witness_split :: "string \<Rightarrow> string list" where
  "witness_split s =
     filter (\<lambda>w. w \<noteq> [])
       (foldr (\<lambda>c acc. if isspace c then [] # acc
                       else (case acc of [] \<Rightarrow> [[c]] | w # ws \<Rightarrow> (c # w) # ws))
          s [])"

definition witness_degrees :: "SimplicialComplex \<Rightarrow> nat list" where
  "witness_degrees K =
     map (\<lambda>s. length (filter (\<lambda>e. dimension e = 1 \<and> hd (vertices s) \<in> set (vertices e)) K))
       (filter (\<lambda>s. dimension s = 0) K)"

definition witness_assignMaximumData :: "SimplicialComplex \<Rightarrow> DataType list \<Rightarrow> SimplicialComplex" where
  "witness_assignMaximumData K ds =
     map (\<lambda>s. setData s (fold max (map (\<lambda>v. ds ! v) (vertices s)) 0)) K"

definition witness_assignData_sum :: "SimplicialComplex \<Rightarrow> DataType list \<Rightarrow> SimplicialComplex" where
  "witness_assignData_sum K ds =
     map (\<lambda>s. setData s (fold (+) (map (\<lambda>v. ds ! v) (vertices s)) 0)) K"

definition witness_engine :: "SimplicialComplex \<Rightarrow> PersistenceDiagram list" where
  "witness_engine K =
     [\<lparr> pd_dimension = 0,
        points = map (\<lambda>s. if dimension s = 0 then \<lparr> point_x = data s, point_y = None \<rparr>
                          else \<lparr> point_x = data (hd K), point_y = Some (data s) \<rparr>) K \<rparr>]"

definition witness_Library :: Library where
  "witness_Library =
     \<lparr> lib_convert = (\<lambda>w. of_nat (length w)),
       lib_stoul = (\<lambda>w. Inr (length w)),
       lib_show = (\<lambda>q. to_string (nat \<lfloor>q\<rfloor>)),
       lib_extension = (\<lambda>f. drop (length f - 4) f),
       lib_stem = (\<lambda>f. take (length f - 4) f),
       lib_basename = (\<lambda>f. f),
       lib_format = (\<lambda>i n. to_string i),
       lib_trim = witness_trim,
       lib_split = witness_split,
       lib_Pajek_parse = (\<lambda>content. Inr single_edge),
       lib_EdgeList_parse = (\<lambda>content. Inr single_edge),
       lib_SparseAdjacencyMatrix_parse = (\<lambda>content. Inr [single_edge, path_graph]),
       lib_RipsExpander = (\<lambda>K k. K),
       lib_assignMaximumWeight = (\<lambda>K. K),
       lib_assignData_sum = witness_assignData_sum,
       lib_assignMaximumData = witness_assignMaximumData,
       lib_sort = (\<lambda>K. K),
       lib_sort_Data = (\<lambda>K. sort_key data K),
       lib_degrees = witness_degrees,
       lib_calculatePersistenceDiagrams = (\<lambda>K dualize includeAllUnpairedCreators. witness_engine K),
       lib_calculatePersistenceDiagrams_default = witness_engine \<rparr>"

text \<open>
  Command lines and file systems for one run of each tool, the files those runs write,
  and a command line without arguments.
\<close>

definition network_fs :: FileSystem where
  "network_fs = [''graph.gml'' \<mapsto> example_gml]"

definition network_cl :: CommandLine where
  "network_cl = \<lparr> options = [], positional = [''graph.gml'', ''1''] \<rparr>"

definition network_files :: Files where
  "network_files =
     [(''/tmp/graph_d0.txt'',
       ''# Original filename: graph.gml'' @ [CHR 0x0A]
       @ ''# d                : 0'' @ [CHR 0x0A]
       @ ''0'' @ [CHR 0x09] @ ''10'' @ [CHR 0x0A]
       @ ''0'' @ [CHR 0x09] @ ''10'' @ [CHR 0x0A]
       @ ''3'' @ [CHR 0x09] @ ''10'' @ [CHR 0x0A]
       @ ''0'' @ [CHR 0x09] @ ''3'' @ [CHR 0x0A]
       @ ''0'' @ [CHR 0x09] @ ''5'' @ [CHR 0x0A]
       @ [CHR 0x0A])]"

definition batch_fs :: FileSystem where
  "batch_fs = [''graphs'' \<mapsto> ''1, 2'']"

definition batch_cl :: CommandLine where
  "batch_cl = \<lparr> options = [], positional = [''graphs''] \<rparr>"

definition batch_files :: Files where
  "batch_files =
     [(''/tmp/0_d0.txt'',
       ''1'' @ [CHR 0x09] @ ''4'' @ [CHR 0x0A]
       @ ''1'' @ [CHR 0x09] @ ''4'' @ [CHR 0x0A]),
      (''/tmp/1_d0.txt'',
       ''1'' @ [CHR 0x09] @ ''4'' @ [CHR 0x0A]
       @ ''1'' @ [CHR 0x09] @ ''4'' @ [CHR 0x0A]
       @ ''2'' @ [CHR 0x09] @ ''4'' @ [CHR 0x0A]
       @ ''1'' @ [CHR 0x09] @ ''2'' @ [CHR 0x0A]
       @ ''1'' @ [CHR 0x09] @ ''2'' @ [CHR 0x0A])]"

definition no_arguments :: CommandLine where
  "no_arguments = \<lparr> options = [], positional = [] \<rparr>"


section \<open>Evaluating the concrete inputs\<close>

lemma to_string_values:
  "to_string 0 = ''0''" "to_string (Suc 0) = ''1''" "to_string 1 = ''1''" "to_string 2 = ''2''"
  "to_string 3 = ''3''" "to_string 4 = ''4''" "to_string 5 = ''5''" "to_string 10 = ''10''"
  by (simp_all add: to_string.simps)

lemma witness_fields:
  "lib_convert witness_Library = (\<lambda>w. of_nat (length w))"
  "lib_stoul witness_Library = (\<lambda>w. Inr (length w))"
  "lib_show witness_Library = (\<lambda>q. to_string (nat \<lfloor>q\<rfloor>))"
  "lib_extension witness_Library = (\<lambda>f. drop (length f - 4) f)"
  "lib_stem witness_Library = (\<lambda>f. take (length f - 4) f)"
  "lib_basename witness_Library = (\<lambda>f. f)"
  "lib_format witness_Library = (\<lambda>i n. to_string i)"
  "lib_trim witness_Library = witness_trim"
  "lib_split witness_Library = witness_split"
  "lib_SparseAdjacencyMatrix_parse witness_Library = (\<lambda>content. Inr [single_edge, path_graph])"
  "lib_RipsExpander witness_Library = (\<lambda>K k. K)"
  "lib_assignMaximumWeight witness_Library = (\<lambda>K. K)"
  "lib_assignMaximumData witness_Library = witness_assignMaximumData"
  "lib_sort witness_Library = (\<lambda>K. K)"
  "lib_sort_Data witness_Library = (\<lambda>K. sort_key data K)"
  "lib_degrees witness_Library = witness_degrees"
  "lib_calculatePersistenceDiagrams witness_Library
     = (\<lambda>K dualize includeAllUnpairedCreators. witness_engine K)"
  "lib_calculatePersistenceDiagrams_default witness_Library = witness_engine"
  by (simp_all add: witness_Library_def)

lemma default_option_values:
  "opt_infinity default_options = 2"
  "opt_calculateClosenessCentrality default_options = False"
  "opt_useSumOfDegrees default_options = False"
  "opt_output default_options = ''/tmp''"
  by (simp_all add: default_options_def)

lemma example_nodeIDs: "nodeIDs_of example_nodes = [''A'', ''B'', ''C'']"
  by (simp add: example_nodes_def nodeIDs_of_def set_insert_def)

lemma example_build:
  "GMLReader_build (lib_convert witness_Library) example_nodes example_edges = Inr example_complex"
  apply (simp add: GMLReader_build_def example_nodeIDs witness_fields)
  apply (simp add: example_nodes_def example_edges_def create_node_def getID_def Simplex_vertex_def
      Simplex_init_def getSimplexByID_def dimension_def SimplicialComplex_init_def
      example_complex_def)
  done

text \<open>The lines of the two texts, and what the reader makes of them.\<close>

lemma example_gml_lines:
  "getlines example_gml =
     [''graph'', ''['',
      ''  node'', ''  ['', ''   id B'', ''   weight abc'', ''  ]'',
      ''  node'', ''  ['', ''   id A'', ''  ]'',
      ''  node'', ''  ['', ''   id C'', ''  ]'',
      ''  edge'', ''  ['', ''   source B'', ''   target A'', ''  ]'',
      ''  edge'', ''  ['', ''   source C'', ''   target A'', ''   weight abcde'', ''  ]'',
      '']'']"
  by (simp add: example_gml_def unlines_def getlines_def)

lemma dangling_gml_lines:
  "getlines dangling_gml =
     [''graph'', ''['',
      ''  node'', ''  ['', ''   id A'', ''  ]'',
      ''  node'', ''  ['', ''   id B'', ''  ]'',
      ''  edge'', ''  ['', ''   source A'', ''   target Z'', ''   weight w'', ''  ]'',
      '']'']"
  by (simp add: dangling_gml_def unlines_def getlines_def)

lemma witness_trim_values:
  "witness_trim ''graph'' = ''graph''" "witness_trim ''['' = ''[''" "witness_trim '']'' = '']''"
  "witness_trim ''  node'' = ''node''" "witness_trim ''  edge'' = ''edge''"
  "witness_trim ''  ['' = ''[''" "witness_trim ''  ]'' = '']''"
  "witness_trim ''   id A'' = ''id A''" "witness_trim ''   id B'' = ''id B''"
  "witness_trim ''   id C'' = ''id C''"
  "witness_trim ''   weight abc'' = ''weight abc''"
  "witness_trim ''   weight abcde'' = ''weight abcde''"
  "witness_trim ''   weight w'' = ''weight w''"
  "witness_trim ''   source A'' = ''source A''" "witness_trim ''   source B'' = ''source B''"
  "witness_trim ''   source C'' = ''source C''"
  "witness_trim ''   target A'' = ''target A''" "witness_trim ''   target Z'' = ''target Z''"
  by (simp_all add: witness_trim_def isspace_def)

lemma witness_split_values:
  "witness_split ''graph'' = [''graph'']" "witness_split ''['' = [''['']"
  "witness_split '']'' = ['']'']"
  "witness_split ''node'' = [''node'']" "witness_split ''edge'' = [''edge'']"
  "witness_split ''id A'' = [''id'', ''A'']" "witness_split ''id B'' = [''id'', ''B'']"
  "witness_split ''id C'' = [''id'', ''C'']"
  "witness_split ''weight abc'' = [''weight'', ''abc'']"
  "witness_split ''weight abcde'' = [''weight'', ''abcde'']"
  "witness_split ''weight w'' = [''weight'', ''w'']"
  "witness_split ''source A'' = [''source'', ''A'']" "witness_split ''source B'' = [''source'', ''B'']"
  "witness_split ''source C'' = [''source'', ''C'']"
  "witness_split ''target A'' = [''target'', ''A'']" "witness_split ''target Z'' = [''target'', ''Z'']"
  by (simp_all add: witness_split_def isspace_def)

lemma regex_values:
  "reAttribute ''id A'' = Some ''id''" "reAttribute ''id B'' = Some ''id''"
  "reAttribute ''id C'' = Some ''id''"
  "reAttribute ''weight abc'' = Some ''weight''" "reAttribute ''weight abcde'' = Some ''weight''"
  "reAttribute ''weight w'' = Some ''weight''"
  "reAttribute ''source A'' = Some ''source''" "reAttribute ''source B'' = Some ''source''"
  "reAttribute ''source C'' = Some ''source''"
  "reAttribute ''target A'' = Some ''target''" "reAttribute ''target Z'' = Some ''target''"
  "reKeyValue ''id A'' = Some ''A''" "reKeyValue ''id B'' = Some ''B''"
  "reKeyValue ''id C'' = Some ''C''"
  "reKeyValue ''weight abc'' = Some ''abc''" "reKeyValue ''weight abcde'' = Some ''abcde''"
  "reKeyValue ''weight w'' = Some ''w''"
  "reKeyValue ''source A'' = Some ''A''" "reKeyValue ''source B'' = Some ''B''"
  "reKeyValue ''source C'' = Some ''C''"
  "reKeyValue ''target A'' = Some ''A''" "reKeyValue ''target Z'' = Some ''Z''"
  by (simp_all add: reAttribute_def reKeyValue_def isalpha_def isspace_def)

lemma example_parse:
  "\<exists>st. parse_lines witness_trim witness_split initial_ParseState (getlines example_gml) = Inr st
        \<and> ps_nodes st = example_nodes \<and> ps_edges st = example_edges"
  by (simp add: example_gml_lines parse_line_def witness_trim_values witness_split_values
      regex_values isLevel_def isAttribute_def set_attribute_def initial_ParseState_def
      empty_Node_def empty_Edge_def example_nodes_def example_edges_def)

lemma dangling_parse:
  "\<exists>st. parse_lines witness_trim witness_split initial_ParseState (getlines dangling_gml) = Inr st
        \<and> ps_nodes st = dangling_nodes \<and> ps_edges st = dangling_edge_weighted"
  by (simp add: dangling_gml_lines parse_line_def witness_trim_values witness_split_values
      regex_values isLevel_def isAttribute_def set_attribute_def initial_ParseState_def
      empty_Node_def empty_Edge_def dangling_nodes_def dangling_edge_weighted_def)


lemma example_stream:
  "GMLReader_stream witness_trim witness_split (lib_convert witness_Library) (getlines example_gml)
     = Inr example_complex"
  using example_parse example_build by (auto simp: GMLReader_stream_def)

section \<open>Properties of the GML reader\<close>

lemma set_insert_props:
  assumes "sorted xs" "distinct xs"
  shows "sorted (set_insert a xs)" "distinct (set_insert a xs)"
    "set (set_insert a xs) = insert a (set xs)"
  using assms by (auto simp: set_insert_def sorted_insort distinct_insort set_insort_key)

lemma fold_set_insert_props:
  assumes "sorted acc" "distinct acc"
  shows "sorted (fold (\<lambda>node ids. set_insert (node_id node) ids) nodes acc)
       \<and> distinct (fold (\<lambda>node ids. set_insert (node_id node) ids) nodes acc)
       \<and> set (fold (\<lambda>node ids. set_insert (node_id node) ids) nodes acc)
           = set (map node_id nodes) \<union> set acc"
  using assms
proof (induction nodes arbitrary: acc)
  case Nil
  then show ?case by simp
next
  case (Cons n ns)
  have s: "sorted (set_insert (node_id n) acc)" and d: "distinct (set_insert (node_id n) acc)"
    and e: "set (set_insert (node_id n) acc) = insert (node_id n) (set acc)"
    using set_insert_props [OF Cons.prems] by blast+
  from Cons.IH [OF s d] e show ?case by auto
qed

lemma nodeIDs_of_props:
  "sorted (nodeIDs_of nodes)" "distinct (nodeIDs_of nodes)"
  "set (nodeIDs_of nodes) = set (map node_id nodes)"
  using fold_set_insert_props [of "[]" nodes] by (simp_all add: nodeIDs_of_def)

lemma length_nodeIDs_of: "length (nodeIDs_of nodes) = card (set (map node_id nodes))"
  using nodeIDs_of_props(2,3) [of nodes] distinct_card [of "nodeIDs_of nodes"] by simp

lemma nodeIDs_size_iff:
  "length (nodeIDs_of nodes) = length nodes \<longleftrightarrow> distinct (map node_id nodes)"
  using card_distinct [of "map node_id nodes"] distinct_card [of "map node_id nodes"]
  by (auto simp: length_nodeIDs_of)




text \<open>
  Claim C3. The claim asks that an edge whose source or target names no declared node
  makes the reader fail. The reader does so only on the path of an edge without a
  weight, where the lookup of the endpoint's vertex throws. On the path of an edge with
  a weight nothing looks the endpoint up: \<^verbatim>\<open>getID\<close> gives the undeclared id the
  number of declared nodes, and the edge enters the complex. With nodes A and B and a
  weighted edge from A to the undeclared Z the reader returns a complex with the edge
  \<open>{0, 2}\<close>, whose vertex 2 belongs to no node; the same edge without a weight is refused.
\<close>

theorem C3_weighted_edge_to_undeclared_node_accepted:
  "''Z'' \<notin> set (map node_id dangling_nodes)
   \<and> GMLReader_stream witness_trim witness_split (lib_convert witness_Library)
         (getlines dangling_gml)
       = Inr [\<lparr> vertices = [0], data = 0 \<rparr>, \<lparr> vertices = [1], data = 0 \<rparr>,
              \<lparr> vertices = [0, 2], data = 1 \<rparr>]
   \<and> GMLReader_build (lib_convert witness_Library) dangling_nodes dangling_edge_weighted
       = Inr [\<lparr> vertices = [0], data = 0 \<rparr>, \<lparr> vertices = [1], data = 0 \<rparr>,
              \<lparr> vertices = [0, 2], data = 1 \<rparr>]
   \<and> GMLReader_build (lib_convert witness_Library) dangling_nodes dangling_edge_unweighted
       = Inl (RuntimeError ''Querying unknown simplex for edge creation'')"
proof -
  have w: "GMLReader_build (lib_convert witness_Library) dangling_nodes dangling_edge_weighted
       = Inr [\<lparr> vertices = [0], data = 0 \<rparr>, \<lparr> vertices = [1], data = 0 \<rparr>,
              \<lparr> vertices = [0, 2], data = 1 \<rparr>]"
    by (simp add: GMLReader_build_def nodeIDs_of_def set_insert_def create_node_def getID_def
        Simplex_vertex_def Simplex_init_def getSimplexByID_def dimension_def
        SimplicialComplex_init_def dangling_nodes_def dangling_edge_weighted_def witness_fields)
  have u: "GMLReader_build (lib_convert witness_Library) dangling_nodes dangling_edge_unweighted
       = Inl (RuntimeError ''Querying unknown simplex for edge creation'')"
    by (simp add: GMLReader_build_def nodeIDs_of_def set_insert_def create_node_def getID_def
        Simplex_vertex_def Simplex_init_def getSimplexByID_def dimension_def
        SimplicialComplex_init_def dangling_nodes_def dangling_edge_unweighted_def witness_fields)
  have s: "GMLReader_stream witness_trim witness_split (lib_convert witness_Library)
         (getlines dangling_gml)
       = Inr [\<lparr> vertices = [0], data = 0 \<rparr>, \<lparr> vertices = [1], data = 0 \<rparr>,
              \<lparr> vertices = [0, 2], data = 1 \<rparr>]"
    using dangling_parse w by (auto simp: GMLReader_stream_def)
  have z: "''Z'' \<notin> set (map node_id dangling_nodes)"
    by (simp add: dangling_nodes_def)
  from z s w u show ?thesis by (intro conjI)
qed

lemma create_edges_Inr:
  "create_edges convert ids es ss = Inr r \<Longrightarrow>
     length r = length ss + length es \<and> take (length ss) r = ss \<and>
     (\<forall>i<length es.
        edge_simplex_ok convert ids (es ! i) (take (length ss + i) r) (r ! (length ss + i)))"
proof (induction es arbitrary: ss)
  case Nil
  then show ?case by simp
next
  case (Cons e es)
  from Cons.prems obtain s where
    rec: "create_edges convert ids es (ss @ [s]) = Inr r" and
    ok: "edge_simplex_ok convert ids e ss s"
    by (auto simp: Let_def edge_simplex_ok_def split: option.splits sum.splits)
  from Cons.IH [OF rec] have
    len: "length r = length ss + 1 + length es" and
    tk: "take (Suc (length ss)) r = ss @ [s]" and
    rest: "\<forall>i<length es. edge_simplex_ok convert ids (es ! i)
             (take (Suc (length ss) + i) r) (r ! (Suc (length ss) + i))"
    by simp_all
  have tk0: "take (length ss) r = ss"
  proof -
    have "take (length ss) r = take (length ss) (take (Suc (length ss)) r)" by simp
    also have "\<dots> = ss" unfolding tk by simp
    finally show ?thesis .
  qed
  have nth0: "r ! length ss = s"
  proof -
    have "r ! length ss = take (Suc (length ss)) r ! length ss" by simp
    also have "\<dots> = s" unfolding tk by simp
    finally show ?thesis .
  qed
  show ?case
  proof (intro conjI allI impI)
    show "length r = length ss + length (e # es)" using len by simp
    show "take (length ss) r = ss" by (rule tk0)
    fix i assume "i < length (e # es)"
    show "edge_simplex_ok convert ids ((e # es) ! i) (take (length ss + i) r) (r ! (length ss + i))"
    proof (cases i)
      case 0
      then show ?thesis using ok tk0 nth0 by simp
    next
      case (Suc k)
      with \<open>i < length (e # es)\<close> have "k < length es" by simp
      with rest Suc show ?thesis by simp
    qed
  qed
qed

lemma position_inj: "a \<in> set xs \<Longrightarrow> position xs a = position xs b \<Longrightarrow> a = b"
  by (induction xs) (auto split: if_splits)

lemma find_append_Some: "find P xs = Some x \<Longrightarrow> find P (xs @ ys) = Some x"
  by (induction xs) (auto split: if_splits)

lemma create_node_shape:
  "dimension (create_node convert ids n) = 0"
  "vertices (create_node convert ids n) = [getID ids (node_id n)]"
  by (simp_all add: create_node_def dimension_def Simplex_vertex_def Let_def split: option.splits)

lemma find_node_simplex:
  assumes d: "distinct (map node_id nodes)" and j: "j < length nodes"
  shows "find (\<lambda>s. dimension s = 0 \<and> vertices s ! 0 = getID (nodeIDs_of nodes) (node_id (nodes ! j)))
           (map (create_node convert (nodeIDs_of nodes)) nodes)
         = Some (create_node convert (nodeIDs_of nodes) (nodes ! j))"
proof -
  let ?ids = "nodeIDs_of nodes"
  have inj: "getID ?ids (node_id (nodes ! j')) \<noteq> getID ?ids (node_id (nodes ! j))"
    if "j' < j" for j'
  proof
    assume eq: "getID ?ids (node_id (nodes ! j')) = getID ?ids (node_id (nodes ! j))"
    have "node_id (nodes ! j') \<in> set ?ids"
      using that j by (simp add: nodeIDs_of_props(3))
    from position_inj [OF this] eq have "node_id (nodes ! j') = node_id (nodes ! j)"
      unfolding getID_def by blast
    with d that j show False
      by (simp add: distinct_conv_nth)
  qed
  show ?thesis
    unfolding find_Some_iff
    by (rule exI [of _ j]) (use j inj in \<open>simp add: create_node_shape\<close>)
qed

lemma getSimplexByID_node:
  assumes d: "distinct (map node_id nodes)" and j: "j < length nodes"
  shows "getSimplexByID (map (create_node convert (nodeIDs_of nodes)) nodes @ rest)
           (getID (nodeIDs_of nodes) (node_id (nodes ! j)))
         = Inr (create_node convert (nodeIDs_of nodes) (nodes ! j))"
  unfolding getSimplexByID_def
  using find_append_Some [OF find_node_simplex [OF d j, of convert], of rest] by simp

lemma getSimplexByID_prefix:
  "getSimplexByID (take m K) a = Inr s \<Longrightarrow> getSimplexByID K a = Inr s"
  unfolding getSimplexByID_def
  using find_append_Some [of _ "take m K" s "drop m K"]
  by (auto split: option.splits)

lemma GMLReader_build_Inr:
  assumes "GMLReader_build convert nodes edges = Inr K"
  shows "distinct (map node_id nodes)"
    and "create_edges convert (nodeIDs_of nodes) edges
           (map (create_node convert (nodeIDs_of nodes)) nodes) = Inr K"
    and "distinct (map vertices K)"
  using assms nodeIDs_size_iff [of nodes]
  by (auto simp: GMLReader_build_def Let_def SimplicialComplex_init_def split: if_splits sum.splits)

lemma GMLReader_build_edge_values:
  assumes "GMLReader_build convert nodes edges = Inr K" and "i < length edges"
  shows "length K = length nodes + length edges
       \<and> (\<forall>j<length nodes. K ! j = create_node convert (nodeIDs_of nodes) (nodes ! j))
       \<and> vertices (K ! (length nodes + i))
           = sort (remdups [getID (nodeIDs_of nodes) (source (edges ! i)),
                            getID (nodeIDs_of nodes) (target (edges ! i))])
       \<and> (\<forall>w. edge_dict (edges ! i) ''weight'' = Some w \<longrightarrow>
              data (K ! (length nodes + i)) = convert w)
       \<and> (edge_dict (edges ! i) ''weight'' = None \<longrightarrow>
            (\<exists>uSimplex vSimplex.
               getSimplexByID K (getID (nodeIDs_of nodes) (source (edges ! i))) = Inr uSimplex
             \<and> getSimplexByID K (getID (nodeIDs_of nodes) (target (edges ! i))) = Inr vSimplex
             \<and> data (K ! (length nodes + i)) = max (data uSimplex) (data vSimplex))
          \<and> (\<forall>j k. j < length nodes \<and> k < length nodes
                 \<and> node_id (nodes ! j) = source (edges ! i)
                 \<and> node_id (nodes ! k) = target (edges ! i) \<longrightarrow>
               data (K ! (length nodes + i)) = max (data (K ! j)) (data (K ! k))))"
proof -
  let ?ids = "nodeIDs_of nodes"
  let ?vs = "map (create_node convert ?ids) nodes"
  note b = GMLReader_build_Inr [OF assms(1)]
  from create_edges_Inr [OF b(2)] have
    len: "length K = length nodes + length edges" and
    tk: "take (length nodes) K = ?vs" and
    ok: "edge_simplex_ok convert ?ids (edges ! i) (take (length nodes + i) K) (K ! (length nodes + i))"
    using assms(2) by simp_all
  have nodes_K: "K ! j = create_node convert ?ids (nodes ! j)" if "j < length nodes" for j
  proof -
    have "K ! j = take (length nodes) K ! j" using that by simp
    also have "\<dots> = create_node convert ?ids (nodes ! j)" unfolding tk using that by simp
    finally show ?thesis .
  qed
  have pre: "take (length nodes + i) K = ?vs @ drop (length nodes) (take (length nodes + i) K)"
  proof -
    have "take (length nodes) (take (length nodes + i) K) = ?vs"
      using tk by (simp add: min_def)
    then show ?thesis
      by (metis append_take_drop_id)
  qed
  have vert: "vertices (K ! (length nodes + i))
           = sort (remdups [getID ?ids (source (edges ! i)), getID ?ids (target (edges ! i))])"
    using ok by (auto simp: edge_simplex_ok_def Let_def Simplex_init_def split: option.splits)
  have weighted: "data (K ! (length nodes + i)) = convert w"
    if "edge_dict (edges ! i) ''weight'' = Some w" for w
    using ok that by (simp add: edge_simplex_ok_def Let_def Simplex_init_def)
  have unweighted: "\<exists>uS vS.
        getSimplexByID (take (length nodes + i) K) (getID ?ids (source (edges ! i))) = Inr uS
      \<and> getSimplexByID (take (length nodes + i) K) (getID ?ids (target (edges ! i))) = Inr vS
      \<and> data (K ! (length nodes + i)) = max (data uS) (data vS)"
    if "edge_dict (edges ! i) ''weight'' = None"
    using ok that by (auto simp: edge_simplex_ok_def Let_def Simplex_init_def)
  have declared: "data (K ! (length nodes + i)) = max (data (K ! j)) (data (K ! k))"
    if n: "edge_dict (edges ! i) ''weight'' = None" and j: "j < length nodes" and k: "k < length nodes"
      and sj: "node_id (nodes ! j) = source (edges ! i)"
      and tk': "node_id (nodes ! k) = target (edges ! i)" for j k
  proof -
    from unweighted [OF n] obtain uS vS where
      u: "getSimplexByID (take (length nodes + i) K) (getID ?ids (source (edges ! i))) = Inr uS" and
      v: "getSimplexByID (take (length nodes + i) K) (getID ?ids (target (edges ! i))) = Inr vS" and
      dd: "data (K ! (length nodes + i)) = max (data uS) (data vS)"
      by blast
    have "getSimplexByID (take (length nodes + i) K) (getID ?ids (node_id (nodes ! j)))
            = Inr (create_node convert ?ids (nodes ! j))"
      by (subst pre) (rule getSimplexByID_node [OF b(1) j])
    with u sj have uS: "uS = K ! j" by (simp add: nodes_K [OF j])
    have "getSimplexByID (take (length nodes + i) K) (getID ?ids (node_id (nodes ! k)))
            = Inr (create_node convert ?ids (nodes ! k))"
      by (subst pre) (rule getSimplexByID_node [OF b(1) k])
    with v tk' have vS: "vS = K ! k" by (simp add: nodes_K [OF k])
    from dd uS vS show ?thesis by simp
  qed
  show ?thesis
    using len nodes_K vert weighted unweighted declared getSimplexByID_prefix
    by (intro conjI allI impI; (blast | simp)?)
qed

text \<open>
  Claim C9. Whenever the reader returns a complex, the complex holds the nodes'
  0-simplices first, in the order of the node declarations, and then one simplex per
  edge. The simplex of the edge at position \<open>i\<close> has the two endpoint numbers as its
  vertices. With a weight attribute its value is the converted weight, that is, the
  conversion of the string the line loop stored for it. Without one, its value is the
  larger of the values of the two 0-simplices that the lookup finds for its endpoints;
  for endpoints that are declared nodes these are the nodes' own 0-simplices.
\<close>

theorem C9_edge_filtration_value:
  assumes "parse_lines trim split initial_ParseState lines = Inr st"
    and "GMLReader_stream trim split convert lines = Inr K"
    and "i < length (ps_edges st)"
  shows "length K = length (ps_nodes st) + length (ps_edges st)
       \<and> (\<forall>j<length (ps_nodes st).
            K ! j = create_node convert (nodeIDs_of (ps_nodes st)) (ps_nodes st ! j))
       \<and> vertices (K ! (length (ps_nodes st) + i))
           = sort (remdups [getID (nodeIDs_of (ps_nodes st)) (source (ps_edges st ! i)),
                            getID (nodeIDs_of (ps_nodes st)) (target (ps_edges st ! i))])
       \<and> (\<forall>w. edge_dict (ps_edges st ! i) ''weight'' = Some w \<longrightarrow>
              data (K ! (length (ps_nodes st) + i)) = convert w)
       \<and> (edge_dict (ps_edges st ! i) ''weight'' = None \<longrightarrow>
            (\<exists>uSimplex vSimplex.
               getSimplexByID K (getID (nodeIDs_of (ps_nodes st)) (source (ps_edges st ! i)))
                 = Inr uSimplex
             \<and> getSimplexByID K (getID (nodeIDs_of (ps_nodes st)) (target (ps_edges st ! i)))
                 = Inr vSimplex
             \<and> data (K ! (length (ps_nodes st) + i)) = max (data uSimplex) (data vSimplex))
          \<and> (\<forall>j k. j < length (ps_nodes st) \<and> k < length (ps_nodes st)
                 \<and> node_id (ps_nodes st ! j) = source (ps_edges st ! i)
                 \<and> node_id (ps_nodes st ! k) = target (ps_edges st ! i) \<longrightarrow>
               data (K ! (length (ps_nodes st) + i)) = max (data (K ! j)) (data (K ! k))))"
proof -
  from assms(1,2) have "GMLReader_build convert (ps_nodes st) (ps_edges st) = Inr K"
    by (simp add: GMLReader_stream_def)
  from GMLReader_build_edge_values [OF this assms(3)] show ?thesis .
qed

theorem C9_edge_filtration_value_witness:
  "GMLReader_stream witness_trim witness_split (lib_convert witness_Library) (getlines example_gml)
     = Inr example_complex
   \<and> data (example_complex ! 3) = max (data (example_complex ! 0)) (data (example_complex ! 1))
   \<and> data (example_complex ! 4) = lib_convert witness_Library ''abcde''"
proof -
  from example_parse obtain st where
    st: "parse_lines witness_trim witness_split initial_ParseState (getlines example_gml) = Inr st"
    and n: "ps_nodes st = example_nodes" and e: "ps_edges st = example_edges"
    by blast
  note b = example_stream
  have e0: "edge_dict (ps_edges st ! 0) ''weight'' = None"
    and e1: "edge_dict (ps_edges st ! 1) ''weight'' = Some ''abcde''"
    and s0: "node_id (ps_nodes st ! 0) = source (ps_edges st ! 0)"
    and t0: "node_id (ps_nodes st ! 1) = target (ps_edges st ! 0)"
    by (simp_all add: n e example_edges_def example_nodes_def)
  have l: "length (ps_nodes st) = 3"
    by (simp add: n example_nodes_def)
  have i0: "0 < length (ps_edges st)" and i1: "1 < length (ps_edges st)"
    by (simp_all add: e example_edges_def)
  have j0: "0 < length (ps_nodes st)" and j1: "1 < length (ps_nodes st)"
    by (simp_all add: n example_nodes_def)
  from C9_edge_filtration_value [OF st b i0] e0 s0 t0 j0 j1
  have "data (example_complex ! (length (ps_nodes st) + 0))
          = max (data (example_complex ! 0)) (data (example_complex ! 1))"
    by blast
  then have "data (example_complex ! 3) = max (data (example_complex ! 0)) (data (example_complex ! 1))"
    by (simp add: l)
  moreover from C9_edge_filtration_value [OF st b i1] e1
  have "data (example_complex ! (length (ps_nodes st) + 1)) = lib_convert witness_Library ''abcde''"
    by blast
  then have "data (example_complex ! 4) = lib_convert witness_Library ''abcde''"
    by (simp add: l)
  ultimately show ?thesis using b by simp
qed

section \<open>Properties of the weight normalisation\<close>



lemma normalize_loop_Inr:
  assumes "range' \<noteq> 0"
  shows "\<exists>K'. normalize_loop minWeight range' K = Inr K' \<and> length K' = length K
          \<and> (\<forall>i<length K. K' ! i = (if dimension (K ! i) = 0 then K ! i
                                      else setData (K ! i) ((data (K ! i) - minWeight) / range')))"
proof (induction K)
  case Nil
  then show ?case by simp
next
  case (Cons s K)
  then obtain K' where K': "normalize_loop minWeight range' K = Inr K'" "length K' = length K"
    "\<forall>i<length K. K' ! i = (if dimension (K ! i) = 0 then K ! i
                                      else setData (K ! i) ((data (K ! i) - minWeight) / range'))"
    by blast
  show ?case
  proof (cases "dimension s = 0")
    case True
    with K' show ?thesis by (auto simp: nth_Cons split: nat.splits)
  next
    case False
    with K' assms show ?thesis by (auto simp: nth_Cons divide_DataType_def split: nat.splits)
  qed
qed





lemma constant_network_range: "weight_range constant_network = (3, 3)"
  by (simp add: weight_range_def constant_network_def DataType_lowest_def DataType_max_def)

text \<open>
  Claim C5. When the loop over the simplices ends with \<^verbatim>\<open>maxWeight\<close> equal to
  \<^verbatim>\<open>minWeight\<close>, a requested normalisation is skipped: the complex and the two
  values come out as they went in. On no input does the normalisation block end with a
  division by zero: the only division is by \<^verbatim>\<open>maxWeight - minWeight\<close>, behind the
  test that the two differ.
\<close>

theorem C5_degenerate_normalization_skipped:
  assumes "fst (weight_range K) = snd (weight_range K)"
  shows "normalize_weights True K = Inr (K, fst (weight_range K), snd (weight_range K))
       \<and> (\<forall>n C. \<exists>r. normalize_weights n C = Inr r)"
proof
  show "normalize_weights True K = Inr (K, fst (weight_range K), snd (weight_range K))"
    using assms by (simp add: normalize_weights_def case_prod_unfold Let_def)
  show "\<forall>n C. \<exists>r. normalize_weights n C = Inr r"
  proof (intro allI)
    fix n C
    show "\<exists>r. normalize_weights n C = Inr r"
    proof (cases "n \<and> fst (weight_range C) \<noteq> snd (weight_range C)")
      case True
      then have "fst (weight_range C) - snd (weight_range C) \<noteq> 0" by simp
      from normalize_loop_Inr [OF this, of "snd (weight_range C)" C] True show ?thesis
        by (auto simp: normalize_weights_def case_prod_unfold Let_def)
    next
      case False
      then show ?thesis by (auto simp: normalize_weights_def case_prod_unfold Let_def)
    qed
  qed
qed

theorem C5_degenerate_normalization_skipped_witness:
  "fst (weight_range constant_network) = snd (weight_range constant_network)
   \<and> normalize_weights True constant_network = Inr (constant_network, 3, 3)"
proof -
  have h: "fst (weight_range constant_network) = snd (weight_range constant_network)"
    by (simp add: constant_network_range)
  from C5_degenerate_normalization_skipped [OF h] h show ?thesis
    by (simp add: constant_network_range)
qed




section \<open>Properties of the batch tool\<close>

lemma expand_loop_id: "expand_loop expander d Ks = Ks"
  by (induction Ks) (simp_all add: Let_def)

lemma expansion_step_id: "expansion_step expander d Ks = Ks"
  by (simp add: expansion_step_def expand_loop_id)

lemma Rips_triangle:
  "Rips_vertex_sets example_triangle 2 = [[0, 1, 2], [0, 1], [0, 2], [0], [1, 2], [1], [2]]"
  by (simp add: Rips_vertex_sets_def example_triangle_def is_clique_def)

text \<open>
  Claim C1. The claim asks that with a dimension \<open>D\<close> other than zero the complexes that
  get their filtration and go to the persistence engine are the clique expansions of
  the input graphs. The batch tool calls the expander on every complex and drops what
  the call returns, so the complexes leave the expansion block as they entered it,
  whatever the expander computes; the network tool assigns the result back. For the
  triangle and \<open>D = 2\<close> the expansion has the 2-simplex \<open>{0, 1, 2}\<close>, the complex handed on
  does not, and the files written are those of a run with \<open>D = 0\<close>.
\<close>

theorem C1_expansion_result_discarded:
  "expansion_step expander 2 [example_triangle] = [example_triangle]
   \<and> [0, 1, 2] \<in> set (Rips_vertex_sets example_triangle 2)
   \<and> [0, 1, 2] \<notin> set (map vertices example_triangle)
   \<and> batch_process L (opts \<lparr> opt_dimension := 2 \<rparr>) out [example_triangle]
       = batch_process L (opts \<lparr> opt_dimension := 0 \<rparr>) out [example_triangle]"
proof (intro conjI)
  show "expansion_step expander 2 [example_triangle] = [example_triangle]"
    by (simp add: expansion_step_def Let_def)
  show "[0, 1, 2] \<in> set (Rips_vertex_sets example_triangle 2)"
    by (simp add: Rips_triangle)
  show "[0, 1, 2] \<notin> set (map vertices example_triangle)"
    by (simp add: example_triangle_def)
  show "batch_process L (opts \<lparr> opt_dimension := 2 \<rparr>) out [example_triangle]
       = batch_process L (opts \<lparr> opt_dimension := 0 \<rparr>) out [example_triangle]"
    by (simp add: batch_process_def expansion_step_id)
qed

lemma fold_largest:
  "fold (\<lambda>it largest. if largest < it then it else largest) ds (d::DataType)
     = Max (insert d (set ds))"
proof (induction ds arbitrary: d)
  case Nil
  then show ?case by simp
next
  case (Cons a ds)
  have "(if d < a then a else d) = max d a" by (simp add: max_def)
  moreover have "Max (insert (max d a) (set ds)) = Max (insert d (insert a (set ds)))"
    by (cases "set ds = {}") (simp_all add: max.assoc)
  ultimately show ?case using Cons.IH [of "max d a"] by simp
qed

lemma max_element_Max: "ds \<noteq> [] \<Longrightarrow> max_element ds = Max (set ds)"
  by (cases ds) (simp_all add: fold_largest)

lemma degree_loop_snd:
  "snd (degree_loop L useSum Ks m) = map (degree_filtration L useSum) Ks"
  by (induction Ks arbitrary: m) (simp_all add: Let_def case_prod_unfold degree_filtration_def)

lemma degree_loop_fst:
  "fst (degree_loop L useSum Ks m)
     = Max (insert m (\<Union>K \<in> set Ks. of_nat ` set (lib_degrees L K)))"
proof (induction Ks arbitrary: m)
  case Nil
  then show ?case by simp
next
  case (Cons K Ks)
  let ?D = "of_nat ` set (lib_degrees L K) :: DataType set"
  let ?R = "(\<Union>K \<in> set Ks. of_nat ` set (lib_degrees L K)) :: DataType set"
  let ?m' = "if map of_nat (lib_degrees L K) \<noteq> ([] :: DataType list)
             then max m (max_element (map of_nat (lib_degrees L K))) else m"
  have finR: "finite ?R" by simp
  have "fst (degree_loop L useSum (K # Ks) m) = fst (degree_loop L useSum Ks ?m')"
    by (simp add: Let_def case_prod_unfold)
  also have "\<dots> = Max (insert ?m' ?R)" by (rule Cons.IH)
  also have "\<dots> = Max (insert m (?D \<union> ?R))"
  proof (cases "lib_degrees L K = []")
    case True
    then show ?thesis by simp
  next
    case False
    then have m': "?m' = max m (Max ?D)"
      by (simp add: max_element_Max)
    have finD: "finite ?D" and neD: "?D \<noteq> {}" using False by simp_all
    have "Max (insert (max m (Max ?D)) ?R) = Max (insert m (?D \<union> ?R))"
    proof (cases "?R = {}")
      case True
      then show ?thesis using finD neD by simp
    next
      case False
      then show ?thesis using finD neD finR by (simp add: Max_Un max.assoc)
    qed
    with m' show ?thesis by simp
  qed
  finally show ?case by simp
qed

lemma degree_loop_eq:
  "degree_loop L useSum Ks 0 = (batch_maxDegree L Ks, map (degree_filtration L useSum) Ks)"
  using degree_loop_fst [of L useSum Ks 0] degree_loop_snd [of L useSum Ks 0]
  by (cases "degree_loop L useSum Ks 0") (simp add: batch_maxDegree_def)

lemma batch_point_line:
  "batch_point L infinity maxDegree p = finite_line (lib_show L) (infinity * maxDegree) p"
  by (cases "point_y p")
     (simp_all add: batch_point_def finite_line_def isUnpaired_def write_death_def)

lemma batch_diagram_lines:
  "batch_diagram L infinity maxDegree pd
     = concat (map (finite_line (lib_show L) (infinity * maxDegree)) (points (removeDiagonal pd)))"
  by (simp add: batch_diagram_def batch_point_line [abs_def])

lemma batch_write_contents:
  "map snd (batch_write L out infinity maxDegree n i K)
     = map (batch_diagram L infinity maxDegree) (lib_calculatePersistenceDiagrams L K True True)"
  by (simp add: batch_write_def Let_def comp_def)

lemma persistence_loop_contents:
  "map (map snd) (persistence_loop L out infinity maxDegree n i Ks)
     = map (\<lambda>K. map (batch_diagram L infinity maxDegree)
                   (lib_calculatePersistenceDiagrams L K True True)) Ks"
  by (induction Ks arbitrary: i) (simp_all add: batch_write_contents)

lemma closeness_step_map:
  "closeness_step L c Ks = map (\<lambda>K. if c then lib_sort L K else K) Ks"
  by (simp add: closeness_step_def)

text \<open>
  The text of the diagram files of a batch: every complex is treated on its own, and
  the batch enters only through the largest degree.
\<close>

lemma batch_process_contents:
  "map (map snd) (batch_process L opts out Ks)
     = map (\<lambda>K. map (batch_diagram L (opt_infinity opts)
                        (batch_maxDegree L
                           (closeness_step L (opt_calculateClosenessCentrality opts) Ks)))
                   (graph_diagrams L opts K)) Ks"
proof -
  let ?Ks1 = "closeness_step L (opt_calculateClosenessCentrality opts) Ks"
  have "batch_process L opts out Ks
          = persistence_loop L out (opt_infinity opts) (batch_maxDegree L ?Ks1) (length Ks) 0
              (map (degree_filtration L (opt_useSumOfDegrees opts)) ?Ks1)"
    by (simp add: batch_process_def expansion_step_id degree_loop_eq Let_def closeness_step_map)
  then show ?thesis
    by (simp add: persistence_loop_contents closeness_step_map graph_diagrams_def comp_def)
qed

lemma mset_indices:
  assumes "mset p = mset [0..<n]"
  shows "set p = {0..<n}"
  using assms mset_eq_setD by fastforce

lemma witness_degrees_single_edge: "witness_degrees single_edge = [1, 1]"
  by (simp add: witness_degrees_def single_edge_def dimension_def)

lemma witness_degrees_path_graph: "witness_degrees path_graph = [1, 2, 1]"
  by (simp add: witness_degrees_def path_graph_def dimension_def)

lemma maxDegree_single: "batch_maxDegree witness_Library [single_edge] = 1"
  by (simp add: batch_maxDegree_def witness_fields witness_degrees_single_edge)

lemma maxDegree_both: "batch_maxDegree witness_Library [single_edge, path_graph] = 2"
  by (simp add: batch_maxDegree_def witness_fields witness_degrees_single_edge
      witness_degrees_path_graph)

lemma filtration_single_edge:
  "degree_filtration witness_Library False single_edge =
     [\<lparr> vertices = [0], data = 1 \<rparr>, \<lparr> vertices = [1], data = 1 \<rparr>, \<lparr> vertices = [0, 1], data = 1 \<rparr>]"
  by (simp add: degree_filtration_def witness_fields witness_degrees_single_edge
        witness_assignMaximumData_def)
     (simp add: single_edge_def setData_def)

lemma filtration_path_graph:
  "degree_filtration witness_Library False path_graph =
     [\<lparr> vertices = [0], data = 1 \<rparr>, \<lparr> vertices = [2], data = 1 \<rparr>, \<lparr> vertices = [1], data = 2 \<rparr>,
      \<lparr> vertices = [0, 1], data = 2 \<rparr>, \<lparr> vertices = [1, 2], data = 2 \<rparr>]"
  by (simp add: degree_filtration_def witness_fields witness_degrees_path_graph
        witness_assignMaximumData_def)
     (simp add: path_graph_def setData_def)

lemma diagrams_single_edge:
  "graph_diagrams witness_Library default_options single_edge =
     [\<lparr> pd_dimension = 0,
        points = [\<lparr> point_x = 1, point_y = None \<rparr>, \<lparr> point_x = 1, point_y = None \<rparr>,
                  \<lparr> point_x = 1, point_y = Some 1 \<rparr>] \<rparr>]"
  by (simp add: graph_diagrams_def witness_fields default_option_values filtration_single_edge
      witness_engine_def dimension_def)

text \<open>
  Claim C6. Reordering the batch reorders the diagram texts in the same way and changes
  none of them: for every permutation \<open>p\<close> of the positions, the run on the reordered
  batch writes for its \<open>k\<close>-th complex the texts that the run on the original batch
  writes for complex \<open>p ! k\<close>. (The file names carry the position and do change.)
\<close>

theorem C6_processing_order_irrelevant:
  assumes "mset p = mset [0..<length Ks]"
  shows "map (map snd) (batch_process L opts out (map ((!) Ks) p))
         = map ((!) (map (map snd) (batch_process L opts out Ks))) p"
proof -
  have sp: "set p = {0..<length Ks}" by (rule mset_indices [OF assms])
  have same_set: "set (map ((!) Ks) p) = set Ks"
  proof (rule equalityI; rule subsetI)
    fix K assume "K \<in> set (map ((!) Ks) p)"
    then show "K \<in> set Ks" using sp by auto
  next
    fix K assume "K \<in> set Ks"
    then obtain i where "i < length Ks" "Ks ! i = K" by (auto simp: in_set_conv_nth)
    then show "K \<in> set (map ((!) Ks) p)" using sp by force
  qed
  let ?c = "opt_calculateClosenessCentrality opts"
  let ?F = "\<lambda>K. if ?c then lib_sort L K else K"
  have "set (closeness_step L ?c (map ((!) Ks) p)) = ?F ` set (map ((!) Ks) p)"
    unfolding closeness_step_map by (rule set_map)
  also have "\<dots> = ?F ` set Ks"
    by (simp only: same_set)
  also have "\<dots> = set (closeness_step L ?c Ks)"
    unfolding closeness_step_map by (rule set_map [symmetric])
  finally have "set (closeness_step L ?c (map ((!) Ks) p)) = set (closeness_step L ?c Ks)" .
  then have M: "batch_maxDegree L (closeness_step L ?c (map ((!) Ks) p))
                = batch_maxDegree L (closeness_step L ?c Ks)"
    by (simp add: batch_maxDegree_def)
  have nth: "map f (map ((!) Ks) p) = map ((!) (map f Ks)) p"
    for f :: "SimplicialComplex \<Rightarrow> string list"
    using sp by simp
  show ?thesis
    by (simp only: batch_process_contents M nth)
qed

theorem C6_processing_order_irrelevant_witness:
  "mset [1, 0] = mset [0..<length [single_edge, path_graph]]
   \<and> map (map snd) (batch_process witness_Library default_options ''/tmp/'' [path_graph, single_edge])
     = [map snd (batch_process witness_Library default_options ''/tmp/'' [single_edge, path_graph] ! 1),
        map snd (batch_process witness_Library default_options ''/tmp/'' [single_edge, path_graph] ! 0)]"
proof -
  have p: "mset [1, 0] = mset [0..<length [single_edge, path_graph]]"
    by (simp add: upt_rec)
  have len: "length (batch_process witness_Library default_options ''/tmp/''
                       [single_edge, path_graph]) = 2"
    using arg_cong [OF batch_process_contents
        [of witness_Library default_options "''/tmp/''" "[single_edge, path_graph]"], of length]
    by simp
  show ?thesis
    using C6_processing_order_irrelevant [OF p, of witness_Library default_options "''/tmp/''"]
      len p
    by simp
qed

text \<open>
  Claim C10. For the complex at position \<open>i\<close> of a batch, every diagram file holds one
  line per point left after the diagonal is removed, and the death written for an
  unpaired point is the infinity factor times the largest vertex degree over all
  complexes of the batch. For the single edge that value is 2 when it is processed
  alone and 4 when the path on three vertices is in the same batch.
\<close>

theorem C10_unpaired_death_uses_batch_maximum:
  assumes "i < length Ks"
  shows "map snd (batch_process L opts out Ks ! i)
         = map (\<lambda>pd. concat (map (finite_line (lib_show L)
                                   (opt_infinity opts
                                    * batch_maxDegree L
                                        (closeness_step L (opt_calculateClosenessCentrality opts) Ks)))
                              (points (removeDiagonal pd))))
             (graph_diagrams L opts (Ks ! i))"
proof -
  have len: "length (batch_process L opts out Ks) = length Ks"
    using arg_cong [OF batch_process_contents [of L opts out Ks], of length] by simp
  have "map snd (batch_process L opts out Ks ! i)
          = map (map snd) (batch_process L opts out Ks) ! i"
    using assms len by simp
  also have "\<dots> = map (batch_diagram L (opt_infinity opts)
                        (batch_maxDegree L
                           (closeness_step L (opt_calculateClosenessCentrality opts) Ks)))
                   (graph_diagrams L opts (Ks ! i))"
    unfolding batch_process_contents using assms by simp
  finally show ?thesis
    by (simp add: batch_diagram_lines [abs_def])
qed

theorem C10_unpaired_death_uses_batch_maximum_witness:
  "map snd (batch_process witness_Library default_options ''/tmp/'' [single_edge] ! 0)
     = [''1'' @ [CHR 0x09] @ ''2'' @ [CHR 0x0A] @ ''1'' @ [CHR 0x09] @ ''2'' @ [CHR 0x0A]]
   \<and> map snd (batch_process witness_Library default_options ''/tmp/'' [single_edge, path_graph] ! 0)
     = [''1'' @ [CHR 0x09] @ ''4'' @ [CHR 0x0A] @ ''1'' @ [CHR 0x09] @ ''4'' @ [CHR 0x0A]]"
  using C10_unpaired_death_uses_batch_maximum
      [of 0 "[single_edge]" witness_Library default_options "''/tmp/''"]
    C10_unpaired_death_uses_batch_maximum
      [of 0 "[single_edge, path_graph]" witness_Library default_options "''/tmp/''"]
  by (simp add: diagrams_single_edge maxDegree_single maxDegree_both closeness_step_def
      removeDiagonal_def finite_line_def witness_fields to_string_values default_option_values)

section \<open>Properties of the two programs\<close>



lemma network_main_usage:
  "length (positional cl) < 2 \<Longrightarrow> network_main L fs cl = Inr (- 1, [])"
  by (simp add: network_main_def case_prod_unfold)

lemma network_main_Inr:
  assumes "network_main L fs cl = Inr (r, files)" and "2 \<le> length (positional cl)"
  shows "r = 0 \<and> (\<exists>n K K' maxWeight minWeight.
            lib_stoul L (positional cl ! 1) = Inr n
          \<and> network_read L fs (positional cl ! 0) = Inr K
          \<and> normalize_weights (snd (network_options (options cl) (False, False))) K
              = Inr (K', maxWeight, minWeight)
          \<and> files = map (network_write L (positional cl ! 0) (n mod 2 ^ 32) maxWeight)
                        (network_diagrams L (fst (network_options (options cl) (False, False)))
                           (n mod 2 ^ 32) maxWeight K'))"
  using assms
  by (auto simp: network_main_def network_diagrams_def Let_def case_prod_unfold split: sum.splits)

lemma network_read_unreadable:
  "fs filename = None
     \<Longrightarrow> network_read L fs filename = Inl (RuntimeError ''Unable to read input file'')"
  by (simp add: network_read_def GMLReader_def read_file_def)

lemma network_main_unreadable:
  assumes "2 \<le> length (positional cl)" and "fs (positional cl ! 0) = None"
  shows "\<exists>e. network_main L fs cl = Inl e"
  using assms network_read_unreadable [of fs "positional cl ! 0" L]
  by (auto simp: network_main_def Let_def case_prod_unfold split: sum.splits)

lemma batch_main_usage:
  "length (positional cl) < 1 \<Longrightarrow> batch_options L (options cl) default_options = Inr opts
     \<Longrightarrow> batch_main L fs cl = Inr (- 1, [])"
  by (simp add: batch_main_def)

lemma batch_main_Inr:
  assumes "batch_main L fs cl = Inr (r, files)" and "1 \<le> length (positional cl)"
  shows "r = 0 \<and> (\<exists>opts out Ks.
            batch_options L (options cl) default_options = Inr opts
          \<and> read_file (lib_SparseAdjacencyMatrix_parse L) fs (positional cl ! 0) = Inr Ks
          \<and> files = concat (batch_process L opts out Ks))"
  using assms
  by (auto simp: batch_main_def Let_def split: sum.splits if_splits)

lemma batch_main_unreadable:
  assumes "1 \<le> length (positional cl)" and "fs (positional cl ! 0) = None"
  shows "\<exists>e. batch_main L fs cl = Inl e"
  using assms
  by (auto simp: batch_main_def Let_def read_file_def split: sum.splits)

lemma batch_main_no_zero:
  assumes "length (positional cl) < 1"
  shows "batch_main L fs cl \<noteq> Inr (0, files)"
  using assms by (auto simp: batch_main_def split: sum.splits)

lemma example_read: "network_read witness_Library network_fs ''graph.gml'' = Inr example_complex"
  by (simp add: network_read_def witness_fields GMLReader_def network_fs_def
      example_stream [unfolded witness_fields])

lemma example_range: "weight_range example_complex = (5, 0)"
  by (simp add: weight_range_def example_complex_def DataType_lowest_def DataType_max_def)

lemma example_sorted:
  "sort_key data example_complex =
     [\<lparr> vertices = [0], data = 0 \<rparr>, \<lparr> vertices = [2], data = 0 \<rparr>, \<lparr> vertices = [1], data = 3 \<rparr>,
      \<lparr> vertices = [0, 1], data = 3 \<rparr>, \<lparr> vertices = [0, 2], data = 5 \<rparr>]"
  by (simp add: example_complex_def)

lemma network_run: "network_main witness_Library network_fs network_cl = Inr (0, network_files)"
  apply (simp add: network_main_def network_cl_def Let_def witness_fields example_read
      normalize_weights_def example_range invert_weights_def example_sorted)
  apply (simp add: witness_engine_def example_sorted dimension_def)
  apply (simp add: network_write_def removeDiagonal_def substitute_infinite_def write_diagram_def
      write_point_def write_death_def witness_fields to_string_values network_files_def)
  done

lemma batch_run_process:
  "batch_process witness_Library default_options ''/tmp/'' [single_edge, path_graph]
     = [[batch_files ! 0], [batch_files ! 1]]"
  apply (simp add: batch_process_def closeness_step_def expansion_step_id degree_loop_eq
      maxDegree_both default_option_values)
  apply (simp add: batch_write_def witness_fields witness_engine_def dimension_def
      batch_diagram_def removeDiagonal_def to_string_values batch_files_def)
  apply (simp add: filtration_single_edge filtration_path_graph batch_point_def isUnpaired_def
      write_death_def witness_fields to_string_values)
  done

lemma batch_run: "batch_main witness_Library batch_fs batch_cl = Inr (0, batch_files)"
  apply (simp add: batch_main_def batch_cl_def)
  apply (simp add: default_options_def read_file_def batch_fs_def witness_fields)
  apply (simp add: batch_run_process [unfolded default_options_def] batch_files_def)
  done



text \<open>
  Claim C8. Without the required positional arguments the network tool returns -1 and
  so does the batch tool, unless an option already made it throw; -1 is a non-zero exit
  status, and in no case does such a run return 0. A run that gets past the argument
  check and returns, returns 0. When the input file cannot be opened the run ends with
  an uncaught exception and writes no diagram: the GML reader throws "Unable to read
  input file", and the readers that are not among the sources are modelled from the
  specification to do the same. (An empty output directory makes the batch tool call
  \<^verbatim>\<open>back()\<close> on an empty string; the model counts that undefined behaviour as a
  run that does not return.)
\<close>

theorem C8_exit_status_and_abort:
  "(length (positional cl) < 2 \<longrightarrow>
      network_main L fs cl = Inr (- 1, []) \<and> exit_status (- 1) \<noteq> 0)
 \<and> (length (positional cl) < 1 \<longrightarrow>
      (\<forall>files. batch_main L fs cl \<noteq> Inr (0, files))
    \<and> (\<forall>opts. batch_options L (options cl) default_options = Inr opts \<longrightarrow>
           batch_main L fs cl = Inr (- 1, [])))
 \<and> (2 \<le> length (positional cl) \<and> network_main L fs cl = Inr (r, files) \<longrightarrow>
      r = 0 \<and> exit_status r = 0)
 \<and> (1 \<le> length (positional cl) \<and> batch_main L fs cl = Inr (r, files) \<longrightarrow>
      r = 0 \<and> exit_status r = 0)
 \<and> (2 \<le> length (positional cl) \<and> fs (positional cl ! 0) = None \<longrightarrow>
      (\<exists>e. network_main L fs cl = Inl e)
    \<and> (\<forall>n. lib_stoul L (positional cl ! 1) = Inr n \<longrightarrow>
           network_main L fs cl = Inl (RuntimeError ''Unable to read input file'')))
 \<and> (1 \<le> length (positional cl) \<and> fs (positional cl ! 0) = None \<longrightarrow>
      (\<exists>e. batch_main L fs cl = Inl e)
    \<and> (\<forall>opts. batch_options L (options cl) default_options = Inr opts \<and> opt_output opts \<noteq> [] \<longrightarrow>
           batch_main L fs cl = Inl (RuntimeError ''Unable to read input file'')))"
proof (intro conjI impI allI)
  show "network_main L fs cl = Inr (- 1, [])" if "length (positional cl) < 2"
    by (rule network_main_usage [OF that])
  show "exit_status (- 1) \<noteq> 0"
    by (simp add: exit_status_def)
  show "batch_main L fs cl \<noteq> Inr (0, files)" if "length (positional cl) < 1" for files
    by (rule batch_main_no_zero [OF that])
  show "batch_main L fs cl = Inr (- 1, [])"
    if "length (positional cl) < 1" "batch_options L (options cl) default_options = Inr opts" for opts
    by (rule batch_main_usage [OF that])
  show "r = 0" if "2 \<le> length (positional cl) \<and> network_main L fs cl = Inr (r, files)"
    using network_main_Inr [of L fs cl r files] that by simp
  then show "exit_status r = 0" if "2 \<le> length (positional cl) \<and> network_main L fs cl = Inr (r, files)"
    using that by (simp add: exit_status_def)
  show "r = 0" if "1 \<le> length (positional cl) \<and> batch_main L fs cl = Inr (r, files)"
    using batch_main_Inr [of L fs cl r files] that by simp
  then show "exit_status r = 0" if "1 \<le> length (positional cl) \<and> batch_main L fs cl = Inr (r, files)"
    using that by (simp add: exit_status_def)
  show "\<exists>e. network_main L fs cl = Inl e"
    if "2 \<le> length (positional cl) \<and> fs (positional cl ! 0) = None"
    using network_main_unreadable [of cl fs L] that by simp
  show "network_main L fs cl = Inl (RuntimeError ''Unable to read input file'')"
    if "2 \<le> length (positional cl) \<and> fs (positional cl ! 0) = None"
      "lib_stoul L (positional cl ! 1) = Inr n" for n
    using that network_read_unreadable [of fs "positional cl ! 0" L]
    by (simp add: network_main_def Let_def case_prod_unfold)
  show "\<exists>e. batch_main L fs cl = Inl e"
    if "1 \<le> length (positional cl) \<and> fs (positional cl ! 0) = None"
    using batch_main_unreadable [of cl fs L] that by simp
  show "batch_main L fs cl = Inl (RuntimeError ''Unable to read input file'')"
    if "1 \<le> length (positional cl) \<and> fs (positional cl ! 0) = None"
      "batch_options L (options cl) default_options = Inr opts \<and> opt_output opts \<noteq> []" for opts
    using that by (auto simp: batch_main_def Let_def read_file_def)
qed

theorem C8_exit_status_and_abort_witness:
  "network_main witness_Library network_fs no_arguments = Inr (- 1, [])
   \<and> batch_main witness_Library batch_fs no_arguments = Inr (- 1, [])
   \<and> exit_status (- 1) = 255
   \<and> network_main witness_Library network_fs network_cl = Inr (0, network_files)
   \<and> batch_main witness_Library batch_fs batch_cl = Inr (0, batch_files)
   \<and> exit_status 0 = 0
   \<and> network_main witness_Library Map.empty network_cl
       = Inl (RuntimeError ''Unable to read input file'')
   \<and> batch_main witness_Library Map.empty batch_cl
       = Inl (RuntimeError ''Unable to read input file'')"
proof -
  have none: "length (positional no_arguments) < 2" "length (positional no_arguments) < 1"
    and o: "batch_options witness_Library (options no_arguments) default_options = Inr default_options"
    by (simp_all add: no_arguments_def)
  from C8_exit_status_and_abort [of no_arguments witness_Library network_fs] none(1)
  have 1: "network_main witness_Library network_fs no_arguments = Inr (- 1, [])"
    by blast
  from C8_exit_status_and_abort [of no_arguments witness_Library batch_fs] none(2) o
  have 2: "batch_main witness_Library batch_fs no_arguments = Inr (- 1, [])"
    by blast
  have 3: "exit_status (- 1) = 255" "exit_status 0 = 0"
    by (simp_all add: exit_status_def)
  have net: "2 \<le> length (positional network_cl)" "Map.empty (positional network_cl ! 0) = None"
    "lib_stoul witness_Library (positional network_cl ! 1) = Inr 1"
    by (simp_all add: network_cl_def witness_fields)
  from C8_exit_status_and_abort [of network_cl witness_Library Map.empty] net
  have 4: "network_main witness_Library Map.empty network_cl
             = Inl (RuntimeError ''Unable to read input file'')"
    by blast
  have bat: "1 \<le> length (positional batch_cl)" "Map.empty (positional batch_cl ! 0) = None"
    "batch_options witness_Library (options batch_cl) default_options = Inr default_options"
    "opt_output default_options \<noteq> []"
    by (simp_all add: batch_cl_def default_option_values)
  from C8_exit_status_and_abort [of batch_cl witness_Library Map.empty] bat
  have 5: "batch_main witness_Library Map.empty batch_cl
             = Inl (RuntimeError ''Unable to read input file'')"
    by blast
  from C8_exit_status_and_abort [of network_cl witness_Library network_fs 0 network_files]
    net(1) network_run
  have "exit_status 0 = 0" by blast
  with 1 2 3 4 5 network_run batch_run show ?thesis by (intro conjI)
qed

end
